theory Spec2Isabelle
  imports Main "HOL-Library.Word" "HOL-Library.Multiset"
begin

section \<open>JavaScript values\<close>

text \<open>
  A JavaScript string is a sequence of UTF-16 code units; \<open>slice\<close>, \<open>startsWith\<close> and
  \<open>===\<close> work on code units. \<open>str\<close> embeds an ASCII literal of the source; the three
  non-ASCII characters of the source's literals are written as their code units.
\<close>

type_synonym jsstring = "16 word list"

definition str :: "string \<Rightarrow> jsstring" where
  "str s = map of_char s"

text \<open>
  A luxon \<open>DateTime\<close>, as far as this module looks at one: \<open>valueOf()\<close> (epoch
  milliseconds, what \<open>a - b\<close> subtracts), \<open>toISO()\<close> and \<open>year\<close>.
\<close>

record datetime =
  valueOf :: int
  toISO :: jsstring
  year :: int

text \<open>
  The functions of \<open>src/til.mjs\<close> that are used as element types, and functions
  supplied by the caller (the \<open>Content\<close> prop).
\<close>

datatype component = CDocument | CLicense | CAttribution | CGTag | CYouTube | CSupplied string

text \<open>
  \<open>JNum\<close> holds the integral numbers of this program (a year, a length); \<open>JNaN\<close> is
  \<open>NaN\<close>. \<open>JContext\<close> is the one context object of the module, \<open>Path\<close>. \<open>JNode\<close> is what
  \<open>h\<close> builds: a type (a tag name, a component function or \<open>Path\<close>), the props and the
  children.
\<close>

datatype jsval =
    JUndefined
  | JNull
  | JBool bool
  | JNaN
  | JNum int
  | JStr jsstring
  | JDate datetime
  | JFun component
  | JContext
  | JArr "jsval list"
  | JObj "(jsstring \<times> jsval) list"
  | JNode jsval "(jsstring \<times> jsval) list" "jsval list"

datatype error = TypeError | UnknownCustomTag | Thrown string

text \<open>An object literal with ASCII keys, and a string literal as a value.\<close>

definition obj :: "(string \<times> jsval) list \<Rightarrow> jsval" where
  "obj kvs = JObj (map (\<lambda>(k, v). (str k, v)) kvs)"

definition lit :: "string \<Rightarrow> jsval" where
  "lit s = JStr (str s)"

text \<open>JavaScript truthiness, for \<open>&&\<close> and \<open>||\<close>.\<close>

fun truthy :: "jsval \<Rightarrow> bool" where
  "truthy JUndefined = False"
| "truthy JNull = False"
| "truthy (JBool b) = b"
| "truthy JNaN = False"
| "truthy (JNum n) = (n \<noteq> 0)"
| "truthy (JStr s) = (s \<noteq> [])"
| "truthy _ = True"

section \<open>Node Builder\<close>

text \<open>
  Modelled from the spec: \<open>h\<close> is imported from the package \<open>hyperjsx\<close>, which is not
  among the sources. Section 4.1: nested child sequences are flattened at any depth,
  \<open>false\<close>, \<open>null\<close> and \<open>undefined\<close> children are removed (\<open>0\<close>, \<open>''\<close> and \<open>true\<close> stay),
  the order of the rest is kept; the first argument after the type is the attributes
  when it is a plain mapping, and the first child otherwise.
\<close>

fun flatten :: "jsval \<Rightarrow> jsval list" where
  "flatten (JArr xs) = concat (map flatten xs)"
| "flatten JUndefined = []"
| "flatten JNull = []"
| "flatten (JBool b) = (if b then [JBool b] else [])"
| "flatten v = [v]"

definition flattenAll :: "jsval list \<Rightarrow> jsval list" where
  "flattenAll args = concat (map flatten args)"

fun h :: "jsval \<Rightarrow> jsval list \<Rightarrow> jsval" where
  "h type (JObj props # children) = JNode type props (flattenAll children)"
| "h type children = JNode type [] (flattenAll children)"

text \<open>
  Unary minus applied to an element that \<open>h\<close> returned: \<open>ToNumber\<close> of an object without
  a numeric primitive value is \<open>NaN\<close>.
\<close>

definition negate_element :: "jsval \<Rightarrow> jsval" where
  "negate_element element = JNaN"

section \<open>Head elements and Open Graph metadata\<close>

text \<open>
  \<open>element.type\<close>: a \<open>TypeError\<close> on \<open>null\<close> and \<open>undefined\<close>, the type of a node, the
  \<open>type\<close> property of a plain mapping, and \<open>undefined\<close> on every other value.
\<close>

fun typeOf :: "jsval \<Rightarrow> error + jsval" where
  "typeOf JUndefined = Inl TypeError"
| "typeOf JNull = Inl TypeError"
| "typeOf (JNode t props children) = Inr t"
| "typeOf (JObj props) =
     Inr (case map_of props (str ''type'') of Some v \<Rightarrow> v | None \<Rightarrow> JUndefined)"
| "typeOf v = Inr JUndefined"

definition isHeadElement :: "jsval \<Rightarrow> error + bool" where
  "isHeadElement element =
     (case typeOf element of
        Inl e \<Rightarrow> Inl e
      | Inr t \<Rightarrow>
          Inr (t = lit ''title'' \<or> t = lit ''meta'' \<or> t = lit ''link'' \<or> t = lit ''script''))"

text \<open>\<open>Array.prototype.filter\<close> with a callback that may throw.\<close>

fun filterE :: "('a \<Rightarrow> error + bool) \<Rightarrow> 'a list \<Rightarrow> error + 'a list" where
  "filterE p [] = Inr []"
| "filterE p (x # xs) =
     (case p x of
        Inl e \<Rightarrow> Inl e
      | Inr b \<Rightarrow>
          (case filterE p xs of
             Inl e \<Rightarrow> Inl e
           | Inr ys \<Rightarrow> Inr (if b then x # ys else ys)))"

definition startsWith :: "jsstring \<Rightarrow> jsstring \<Rightarrow> bool" where
  "startsWith s p = (take (length p) s = p)"

text \<open>
  \<open>OpenGraph\<close> maps over \<open>Object.entries(data)\<close>; the argument here is that list of
  entries, in the order \<open>Object.entries\<close> gives them. \<open>content && h(...)\<close> is \<open>content\<close>
  itself when \<open>content\<close> is falsy.
\<close>

definition OpenGraph :: "(jsstring \<times> jsval) list \<Rightarrow> jsval list" where
  "OpenGraph data =
     map (\<lambda>(name, content).
            if truthy content
            then h (lit ''meta'')
                   [JObj [(if startsWith name (str ''twitter:'') then str ''name''
                           else str ''property'', JStr name),
                          (str ''content'', content)]]
            else content)
         data"

section \<open>Structured data\<close>

text \<open>
  The values that this module hands to \<open>JSON.stringify\<close>: strings, numbers, nested
  mappings and \<open>undefined\<close>.
\<close>

datatype json =
    JsUndefined
  | JsNull
  | JsBool bool
  | JsNum int
  | JsStr jsstring
  | JsArr "json list"
  | JsObj "(jsstring \<times> json) list"

text \<open>\<open>Array.prototype.join\<close> on an array of strings.\<close>

fun join :: "jsstring \<Rightarrow> jsstring list \<Rightarrow> jsstring" where
  "join sep [] = []"
| "join sep [x] = x"
| "join sep (x # y # ys) = x @ sep @ join sep (y # ys)"

text \<open>\<open>String(n)\<close> for an integral number.\<close>

fun digits :: "nat \<Rightarrow> jsstring" where
  "digits n = (if n < 10 then [of_nat (48 + n)] else digits (n div 10) @ [of_nat (48 + n mod 10)])"

declare digits.simps [simp del]

definition numberToString :: "int \<Rightarrow> jsstring" where
  "numberToString n = (if n < 0 then str ''-'' @ digits (nat (- n)) else digits (nat n))"

text \<open>
  \<open>JSON.stringify(value, null, 2)\<close>, after ECMA-262: \<open>QuoteJSONString\<close> escapes the
  quote, the backslash, the control characters and lone surrogates;
  \<open>SerializeJSONObject\<close> leaves out every property whose value serializes to
  \<open>undefined\<close>, and indents by two spaces per level.
\<close>

definition hexDigit :: "nat \<Rightarrow> 16 word" where
  "hexDigit n = (if n < 10 then of_nat (48 + n) else of_nat (87 + n))"

definition unicodeEscape :: "16 word \<Rightarrow> jsstring" where
  "unicodeEscape c =
     [0x5C, 0x75] @ map (\<lambda>i. hexDigit ((unat c div 16 ^ i) mod 16)) [3, 2, 1, 0]"

definition isLeadingSurrogate :: "16 word \<Rightarrow> bool" where
  "isLeadingSurrogate c = (0xD800 \<le> c \<and> c \<le> 0xDBFF)"

definition isTrailingSurrogate :: "16 word \<Rightarrow> bool" where
  "isTrailingSurrogate c = (0xDC00 \<le> c \<and> c \<le> 0xDFFF)"

fun quoteChars :: "jsstring \<Rightarrow> jsstring" where
  "quoteChars [] = []"
| "quoteChars (c # cs) =
     (if c = 0x08 then [0x5C, 0x62] @ quoteChars cs
      else if c = 0x09 then [0x5C, 0x74] @ quoteChars cs
      else if c = 0x0A then [0x5C, 0x6E] @ quoteChars cs
      else if c = 0x0C then [0x5C, 0x66] @ quoteChars cs
      else if c = 0x0D then [0x5C, 0x72] @ quoteChars cs
      else if c = 0x22 then [0x5C, 0x22] @ quoteChars cs
      else if c = 0x5C then [0x5C, 0x5C] @ quoteChars cs
      else if c < 0x20 then unicodeEscape c @ quoteChars cs
      else if isLeadingSurrogate c then
        (case cs of
           [] \<Rightarrow> unicodeEscape c
         | d # ds \<Rightarrow>
             if isTrailingSurrogate d then c # d # quoteChars ds
             else unicodeEscape c @ quoteChars cs)
      else if isTrailingSurrogate c then unicodeEscape c @ quoteChars cs
      else c # quoteChars cs)"

definition quoteJSON :: "jsstring \<Rightarrow> jsstring" where
  "quoteJSON s = [0x22] @ quoteChars s @ [0x22]"

definition indentation :: "nat \<Rightarrow> jsstring" where
  "indentation d = concat (replicate d (str ''  ''))"

text \<open>
  \<open>serialize d v\<close> is \<open>SerializeJSONProperty\<close> at nesting depth \<open>d\<close>; \<open>None\<close> is its
  result \<open>undefined\<close>. \<open>members\<close> are the \<open>"key": value\<close> texts of a mapping, in order.
\<close>

fun serialize :: "nat \<Rightarrow> json \<Rightarrow> jsstring option" where
  "serialize d JsUndefined = None"
| "serialize d JsNull = Some (str ''null'')"
| "serialize d (JsBool b) = Some (if b then str ''true'' else str ''false'')"
| "serialize d (JsNum n) = Some (numberToString n)"
| "serialize d (JsStr s) = Some (quoteJSON s)"
| "serialize d (JsArr xs) =
     Some (if xs = [] then str ''[]''
           else str ''['' @ [0x0A] @ indentation (Suc d)
                @ join (str '','' @ [0x0A] @ indentation (Suc d))
                    (map (\<lambda>x. case serialize (Suc d) x of None \<Rightarrow> str ''null'' | Some s \<Rightarrow> s) xs)
                @ [0x0A] @ indentation d @ str '']'')"
| "serialize d (JsObj ps) =
     (let members =
            concat (map (\<lambda>kv. case serialize (Suc d) (snd kv) of
                                 None \<Rightarrow> []
                               | Some s \<Rightarrow> [(fst kv, s)]) ps);
          partial = map (\<lambda>(k, s). quoteJSON k @ str '': '' @ s) members
      in Some (if partial = [] then str ''{}''
               else str ''{'' @ [0x0A] @ indentation (Suc d)
                    @ join (str '','' @ [0x0A] @ indentation (Suc d)) partial
                    @ [0x0A] @ indentation d @ str ''}''))"

definition stringify :: "json \<Rightarrow> jsstring" where
  "stringify v = (case serialize 0 v of None \<Rightarrow> str ''undefined'' | Some s \<Rightarrow> s)"

text \<open>
  The object spread \<open>{ ...base, ...extra }\<close>: a key already present keeps its place and
  takes the later value, a new key is appended.
\<close>

fun assign :: "(jsstring \<times> 'v) list \<Rightarrow> jsstring \<Rightarrow> 'v \<Rightarrow> (jsstring \<times> 'v) list" where
  "assign [] k v = [(k, v)]"
| "assign ((k', v') # ps) k v = (if k' = k then (k, v) # ps else (k', v') # assign ps k v)"

definition spread :: "(jsstring \<times> 'v) list \<Rightarrow> (jsstring \<times> 'v) list \<Rightarrow> (jsstring \<times> 'v) list" where
  "spread base extra = foldl (\<lambda>acc (k, v). assign acc k v) base extra"

definition JSONLD :: "(jsstring \<times> json) list \<Rightarrow> jsval" where
  "JSONLD data0 =
     (let data = spread [(str ''@context'', JsStr (str ''https://schema.org/''))] data0
      in h (lit ''script'')
           [obj [(''type'', lit ''application/ld+json''),
                 (''innerHTML'', JStr ([0x0A] @ stringify (JsObj data) @ [0x0A]))]])"

section \<open>What the module imports\<close>

text \<open>
  Functions imported from outside this file, taken as parameters: \<open>relative\<close> of the
  \<open>path\<close> module (on two strings), \<open>firstParagraph\<close> and \<open>textContent\<close> of
  \<open>./markdown.mjs\<close>, \<open>mdjsx\<close> of \<open>./mdjsx.mjs\<close> (a compile failure is an error) and
  \<open>render\<close> of \<open>hyperjsx\<close>. \<open>'md\<close> is the parsed markdown of an entry, \<open>'p\<close> what
  \<open>firstParagraph\<close> returns.
\<close>

record ('md, 'p) ext =
  relative :: "jsstring \<Rightarrow> jsstring \<Rightarrow> jsstring"
  firstParagraph :: "'md \<Rightarrow> 'p"
  textContent :: "'p \<Rightarrow> jsstring"
  mdjsx :: "'md \<Rightarrow> jsval \<Rightarrow> error + jsval"
  render :: "jsval \<Rightarrow> error + jsstring"

record frontmatter =
  title :: jsstring
  permalink :: jsstring
  date :: datetime
  tags :: "jsstring list"
  published :: jsval

record 'md entry =
  filename :: jsstring
  lastModified :: datetime
  frontmatter :: frontmatter
  markdown :: 'md

text \<open>The components exposed to the markdown compiler.\<close>

definition components :: jsval where
  "components = obj [(''YouTube'', JFun CYouTube)]"

section \<open>Document\<close>

text \<open>
  \<open>usePath()\<close> is the value that the innermost enclosing \<open>Path\<close> provider binds, or
  \<open>undefined\<close>; it is the argument \<open>path\<close> below. \<open>useRelPath(to)\<close> is
  \<open>relative(usePath(), to)\<close>, and \<open>path.relative\<close> throws a \<open>TypeError\<close> unless its
  arguments are strings.

  \<open>Document\<close> receives the children that \<open>h(Document, ...)\<close> collected. With a path that
  is not a string the first \<open>useRelPath\<close> throws, whatever the template literal of the
  canonical link gave before; with a string every \<open>useRelPath\<close> returns.
\<close>

definition Document :: "('md, 'p) ext \<Rightarrow> jsval \<Rightarrow> jsval list \<Rightarrow> error + jsval" where
  "Document X path children =
     (case filterE isHeadElement children of
        Inl e \<Rightarrow> Inl e
      | Inr heads \<Rightarrow>
     (case path of
        JStr p \<Rightarrow>
          (case filterE (\<lambda>child. case isHeadElement child of
                                    Inl e \<Rightarrow> Inl e | Inr b \<Rightarrow> Inr (\<not> b)) children of
             Inl e \<Rightarrow> Inl e
           | Inr bodies \<Rightarrow>
               Inr (h (lit ''html'')
                 [h (lit ''head'')
                    [h (lit ''meta'') [obj [(''charset'', lit ''UTF-8'')]],
                     JArr heads,
                     h (lit ''meta'')
                       [obj [(''name'', lit ''viewport''),
                             (''content'', lit ''width=device-width, initial-scale=1'')]],
                     h (lit ''link'')
                       [obj [(''rel'', lit ''canonical''),
                             (''href'', JStr (str ''https://leebyron.com/til'' @ p))]],
                     h (lit ''link'')
                       [obj [(''rel'', lit ''shortcut icon''),
                             (''href'', JStr (relative X p (str ''/assets/favicon.png'')))]],
                     h (lit ''link'')
                       [obj [(''rel'', lit ''stylesheet''),
                             (''href'', JStr (relative X p (str ''/assets/style.css'')))]],
                     h (lit ''link'')
                       [obj [(''rel'', lit ''alternate''),
                             (''type'', lit ''application/atom+xml''),
                             (''title'', lit ''Reader Feed''),
                             (''href'', JStr (relative X p (str ''/feed.xml'')))]],
                     h (JFun CGTag) []],
                  h (lit ''body'')
                    [h (lit ''header'')
                       [h (lit ''a'')
                          [obj [(''href'', lit ''https://leebyron.com'')],
                           h (lit ''img'')
                             [obj [(''src'', JStr (relative X p (str ''/assets/logo.svg''))),
                                   (''alt'', lit ''Lee Byron'')]]]],
                     JArr bodies]]))
      | _ \<Rightarrow> Inl TypeError))"

section \<open>Ambient context and expansion\<close>

text \<open>
  Modelled from the spec: the expansion pass of the \<open>hyperjsx\<close> renderer, which is not
  among the sources. Section 4.2: a provider node binds its value while its children are
  expanded, and the binding ends with the subtree; a component invocation is expanded by
  calling the component. Of the components only \<open>Document\<close> is expanded here; an
  invocation of any other component stays in the tree as a node.
\<close>

text \<open>
  The measure under which the expansion terminates: a \<open>Document\<close> invocation weighs more
  than the elements that \<open>Document\<close> adds around its children.
\<close>

fun weight :: "jsval \<Rightarrow> nat" where
  "weight (JNode t props children) =
     (if t = JFun CDocument then 20 else 1) + sum_list (map weight children)"
| "weight (JArr xs) = 1 + sum_list (map weight xs)"
| "weight v = 1"

lemma weight_pos: "0 < weight v"
  by (cases v) auto

lemma weight_flatten: "sum_list (map weight (flatten v)) \<le> weight v"
proof (induction v rule: flatten.induct)
  case (1 xs)
  have "sum_list (map weight (concat (map flatten xs))) \<le> sum_list (map weight xs)"
    using 1 by (induction xs) (auto simp: add_mono)
  then show ?case by simp
qed auto

lemma weight_filterE:
  "filterE p xs = Inr ys \<Longrightarrow>
   filterE (\<lambda>c. case p c of Inl e \<Rightarrow> Inl e | Inr b \<Rightarrow> Inr (\<not> b)) xs = Inr zs \<Longrightarrow>
   sum_list (map weight ys) + sum_list (map weight zs) = sum_list (map weight xs)"
  by (induction xs arbitrary: ys zs) (auto split: sum.splits if_splits)

lemma weight_Document:
  assumes "Document X path children = Inr doc"
  shows "weight doc < 20 + sum_list (map weight children)"
proof -
  from assms obtain heads bodies where
    hb: "filterE isHeadElement children = Inr heads"
        "filterE (\<lambda>c. case isHeadElement c of Inl e \<Rightarrow> Inl e | Inr b \<Rightarrow> Inr (\<not> b)) children
         = Inr bodies"
    and doc: "weight doc = 13 + sum_list (map weight (flatten (JArr heads)))
                              + sum_list (map weight (flatten (JArr bodies)))"
    by (auto simp: Document_def obj_def flattenAll_def lit_def split: sum.splits jsval.splits)
  have "sum_list (map weight (flatten (JArr heads))) \<le> 1 + sum_list (map weight heads)"
       "sum_list (map weight (flatten (JArr bodies))) \<le> 1 + sum_list (map weight bodies)"
    using weight_flatten [of "JArr heads"] weight_flatten [of "JArr bodies"] by simp_all
  with weight_filterE [OF hb] doc show ?thesis by linarith
qed

function expand :: "('md, 'p) ext \<Rightarrow> jsval \<Rightarrow> jsval \<Rightarrow> error + jsval list"
  and expandAll :: "('md, 'p) ext \<Rightarrow> jsval \<Rightarrow> jsval list \<Rightarrow> error + jsval list" where
  "expand X path v =
     (case v of
        JNode t props children \<Rightarrow>
          if t = JContext then
            expandAll X (case map_of props (str ''value'') of Some b \<Rightarrow> b | None \<Rightarrow> JUndefined)
              children
          else if t = JFun CDocument then
            (case Document X path children of
               Inl e \<Rightarrow> Inl e
             | Inr doc \<Rightarrow> expand X path doc)
          else
            (case expandAll X path children of
               Inl e \<Rightarrow> Inl e
             | Inr cs \<Rightarrow> Inr [JNode t props cs])
      | _ \<Rightarrow> Inr [v])"
| "expandAll X path [] = Inr []"
| "expandAll X path (c # cs) =
     (case expand X path c of
        Inl e \<Rightarrow> Inl e
      | Inr a \<Rightarrow>
          (case expandAll X path cs of
             Inl e \<Rightarrow> Inl e
           | Inr b \<Rightarrow> Inr (a @ b)))"
  by pat_completeness auto

termination
proof (relation "measure (\<lambda>a. case a of
           Inl (X, path, v) \<Rightarrow> 2 * weight v
         | Inr (X, path, vs) \<Rightarrow> 2 * sum_list (map weight vs) + 1)", goal_cases)
  case (3 X path v t props children doc)
  then show ?case using weight_Document [of X path children doc] by simp
next
  case (6 X path c cs)
  then show ?case using weight_pos [of c] by simp
qed simp_all

declare expand.simps [simp del]

section \<open>Entry Page\<close>

text \<open>The front-matter as the mapping that \<open>Attribution\<close> receives in its props.\<close>

definition frontmatterValue :: "frontmatter \<Rightarrow> jsval" where
  "frontmatterValue fm =
     obj ([(''title'', JStr (title fm)),
           (''permalink'', JStr (permalink fm)),
           (''date'', JDate (date fm)),
           (''tags'', JArr (map JStr (tags fm)))]
          @ (if published fm = JUndefined then [] else [(''published'', published fm)]))"

text \<open>
  \<open>Page\<close>, with the \<open>Content\<close> prop as its last argument. The first child of
  \<open>Document\<close> is \<open>frontmatter.published === false && -h('meta', ...)\<close>: the source has
  a minus sign in front of the call of \<open>h\<close>. \<open>0x2014\<close> is the dash of the title.
\<close>

definition Page :: "('md, 'p) ext \<Rightarrow> 'md entry \<Rightarrow> jsval \<Rightarrow> jsval" where
  "Page X e Content =
     (let fm = frontmatter e in
      h JContext
        [obj [(''value'', JStr (str ''/'' @ permalink fm @ str ''/''))],
         h (JFun CDocument)
           ([if published fm = JBool False
             then negate_element
                    (h (lit ''meta'') [obj [(''name'', lit ''robots''), (''content'', lit ''noindex'')]])
             else JBool False,
             h (lit ''title'')
               [JStr (str ''til / '' @ title fm @ [0x20, 0x2014, 0x20] @ str ''Lee Byron'')]]
            @ OpenGraph
                [(str ''og:url'', JStr (str ''https://leebyron.com/til/'' @ permalink fm @ str ''/'')),
                 (str ''og:title'',
                    JStr (str ''til / '' @ title fm @ [0x20, 0x2014, 0x20] @ str ''Lee Byron'')),
                 (str ''og:description'',
                    JStr (take 200 (textContent X (firstParagraph X (markdown e))))),
                 (str ''og:type'', lit ''article''),
                 (str ''article:author:first_name'', lit ''Lee''),
                 (str ''article:author:last_name'', lit ''Byron''),
                 (str ''article:published_time'', JStr (toISO (date fm))),
                 (str ''article:modified_time'', JStr (toISO (lastModified e))),
                 (str ''twitter:card'', lit ''summary''),
                 (str ''twitter:creator'', lit ''@leeb'')]
            @ [JSONLD
                 [(str ''@type'', JsStr (str ''LearningResource'')),
                  (str ''name'', JsStr (title fm)),
                  (str ''author'',
                     JsObj [(str ''@type'', JsStr (str ''Person'')),
                            (str ''name'', JsStr (str ''Lee Byron'')),
                            (str ''url'', JsStr (str ''http://leebyron.com''))]),
                  (str ''url'', JsStr (str ''https://leebyron.com/til/'' @ permalink fm @ str ''/'')),
                  (str ''datePublished'', JsStr (toISO (date fm))),
                  (str ''dateModified'', JsStr (toISO (lastModified e))),
                  (str ''keywords'',
                     (let joined = join (str '', '') (tags fm)
                      in if joined \<noteq> [] then JsStr joined else JsUndefined)),
                  (str ''isPartOf'', JsStr (str ''https://leebyron.com/til/'')),
                  (str ''license'', JsStr (str ''https://creativecommons.org/licenses/by/4.0/''))],
               h (lit ''article'')
                 [h (lit ''h1'')
                    [h (lit ''a'') [obj [(''href'', lit ''../'')], lit ''til''],
                     h (lit ''span'') [JStr (title fm)]],
                  h Content [obj [(''components'', components)]]],
               h (lit ''footer'')
                 [h (JFun CLicense)
                    [obj [(''year'', JNum (year (date fm)))],
                     h (JFun CAttribution)
                       [obj [(''filename'', JStr (filename e)),
                             (''frontmatter'', frontmatterValue fm)]]]]])])"

section \<open>Feed\<close>

text \<open>\<open>Array.prototype.map\<close> with a callback that may throw.\<close>

fun mapE :: "('a \<Rightarrow> error + 'b) \<Rightarrow> 'a list \<Rightarrow> error + 'b list" where
  "mapE f [] = Inr []"
| "mapE f (x # xs) =
     (case f x of
        Inl e \<Rightarrow> Inl e
      | Inr y \<Rightarrow> (case mapE f xs of Inl e \<Rightarrow> Inl e | Inr ys \<Rightarrow> Inr (y # ys)))"

text \<open>\<open>Array.prototype.pop\<close>: the last element, \<open>undefined\<close> (here \<open>None\<close>) on an empty array.\<close>

definition pop :: "'a list \<Rightarrow> 'a option" where
  "pop xs = (if xs = [] then None else Some (last xs))"

text \<open>
  The callback of \<open>entries.map\<close> in \<open>Feed\<close>. \<open>0xA9\<close> is the copyright sign and \<open>0x2E31\<close>
  the separator dot of the rights line.
\<close>

definition Feed_entry :: "('md, 'p) ext \<Rightarrow> 'md entry \<Rightarrow> error + jsval" where
  "Feed_entry X e =
     (let fm = frontmatter e in
      case mdjsx X (markdown e) (obj [(''components'', components)]) of
        Inl err \<Rightarrow> Inl err
      | Inr content \<Rightarrow>
     (case render X content of
        Inl err \<Rightarrow> Inl err
      | Inr html \<Rightarrow>
          Inr (h (lit ''entry'')
            [h (lit ''id'') [JStr (str ''https://leebyron.com/til/'' @ permalink fm @ str ''/'')],
             h (lit ''link'')
               [obj [(''rel'', lit ''alternate''),
                     (''type'', lit ''text/html''),
                     (''href'', JStr (str ''https://leebyron.com/til/'' @ permalink fm @ str ''/''))]],
             h (lit ''published'') [JStr (toISO (date fm))],
             h (lit ''updated'') [JStr (toISO (lastModified e))],
             h (lit ''title'') [JStr (title fm)],
             h (lit ''author'')
               [h (lit ''name'') [lit ''Lee Byron''], h (lit ''uri'') [lit ''https://leebyron.com'']],
             JArr (map (\<lambda>tag. h (lit ''category'') [obj [(''term'', JStr tag)]]) (tags fm)),
             h (lit ''content'')
               [obj [(''type'', lit ''html''),
                     (''innerHTML'', JStr (str ''<![CDATA['' @ html @ str '']]>''))]],
             h (lit ''rights'')
               [JStr ([0xA9, 0x20] @ numberToString (year (date fm)) @ str '' Lee Byron ''
                      @ [0x2E31] @ str '' licensed under CC BY 4.0'')]])))"

text \<open>
  \<open>sort((a, b) => a - b)\<close> orders the \<open>DateTime\<close>s by \<open>valueOf()\<close>, ascending, and is
  stable, as \<open>sort_key\<close> is. \<open>pop()\<close> of an empty array is \<open>undefined\<close>, and calling
  \<open>toISO\<close> on it throws a \<open>TypeError\<close>; the arguments of \<open>h('feed', ...)\<close> are evaluated
  in order, so this happens before any entry is composed.
\<close>

definition Feed :: "('md, 'p) ext \<Rightarrow> 'md entry list \<Rightarrow> error + jsval" where
  "Feed X entries =
     (case pop (sort_key valueOf (map lastModified entries)) of
        None \<Rightarrow> Inl TypeError
      | Some latest \<Rightarrow>
     (case mapE (Feed_entry X) entries of
        Inl err \<Rightarrow> Inl err
      | Inr es \<Rightarrow>
          Inr (h (lit ''feed'')
            [obj [(''xmlns'', lit ''http://www.w3.org/2005/Atom''), (''xml:lang'', lit ''en-us'')],
             h (lit ''id'') [lit ''https://leebyron.com/til/feed.xml''],
             h (lit ''link'')
               [obj [(''rel'', lit ''self''),
                     (''type'', lit ''application/atom+xml''),
                     (''href'', lit ''https://leebyron.com/til/feed.xml'')]],
             h (lit ''link'')
               [obj [(''rel'', lit ''alternate''),
                     (''type'', lit ''text/html''),
                     (''href'', lit ''https://leebyron.com/til/'')]],
             h (lit ''updated'') [JStr (toISO latest)],
             h (lit ''title'') [lit ''Lee Byron / til''],
             h (lit ''subtitle'')
               [lit ''Today I Learned: A bunch of brief blurbs on miscellaneous matter.''],
             h (lit ''icon'') [lit ''https://leebyron.com/til/assets/favicon.png''],
             h (lit ''author'')
               [h (lit ''name'') [lit ''Lee Byron''], h (lit ''uri'') [lit ''https://leebyron.com'']],
             h (lit ''rights'')
               [JStr ([0xA9] @ str '' 2022 Lee Byron '' @ [0x2E31]
                      @ str '' licensed under CC BY 4.0'')],
             h (lit ''generator'') [obj [(''uri'', lit ''https://github.com/leebyron/til'')], lit ''til''],
             JArr es])))"

section \<open>Reading a composed document\<close>

text \<open>
  What the properties below say about a tree: whether a value is an element, whether a
  child has one of the four head types, and the fixed elements that \<open>Document\<close> puts
  after the head children and in front of the body children.
\<close>

fun is_element :: "jsval \<Rightarrow> bool" where
  "is_element (JNode t props children) = True"
| "is_element v = False"

definition headType :: "jsval \<Rightarrow> bool" where
  "headType c =
     (case typeOf c of
        Inl e \<Rightarrow> False
      | Inr t \<Rightarrow> t \<in> {lit ''title'', lit ''meta'', lit ''link'', lit ''script''})"

definition headTail :: "('md, 'p) ext \<Rightarrow> jsstring \<Rightarrow> jsval list" where
  "headTail X p =
     [JNode (lit ''meta'')
        [(str ''name'', lit ''viewport''),
         (str ''content'', lit ''width=device-width, initial-scale=1'')] [],
      JNode (lit ''link'')
        [(str ''rel'', lit ''canonical''),
         (str ''href'', JStr (str ''https://leebyron.com/til'' @ p))] [],
      JNode (lit ''link'')
        [(str ''rel'', lit ''shortcut icon''),
         (str ''href'', JStr (relative X p (str ''/assets/favicon.png'')))] [],
      JNode (lit ''link'')
        [(str ''rel'', lit ''stylesheet''),
         (str ''href'', JStr (relative X p (str ''/assets/style.css'')))] [],
      JNode (lit ''link'')
        [(str ''rel'', lit ''alternate''), (str ''type'', lit ''application/atom+xml''),
         (str ''title'', lit ''Reader Feed''),
         (str ''href'', JStr (relative X p (str ''/feed.xml'')))] [],
      JNode (JFun CGTag) [] []]"

definition bodyHeader :: "('md, 'p) ext \<Rightarrow> jsstring \<Rightarrow> jsval" where
  "bodyHeader X p =
     JNode (lit ''header'') []
       [JNode (lit ''a'') [(str ''href'', lit ''https://leebyron.com'')]
          [JNode (lit ''img'')
             [(str ''src'', JStr (relative X p (str ''/assets/logo.svg''))),
              (str ''alt'', lit ''Lee Byron'')] []]]"

text \<open>The children and the props of an element, one attribute, and the children by type.\<close>

fun childrenOf :: "jsval \<Rightarrow> jsval list" where
  "childrenOf (JNode t props children) = children"
| "childrenOf v = []"

fun propsOf :: "jsval \<Rightarrow> (jsstring \<times> jsval) list" where
  "propsOf (JNode t props children) = props"
| "propsOf v = []"

definition attr :: "jsval \<Rightarrow> string \<Rightarrow> jsval" where
  "attr v k = (case map_of (propsOf v) (str k) of Some a \<Rightarrow> a | None \<Rightarrow> JUndefined)"

definition childrenTyped :: "string \<Rightarrow> jsval \<Rightarrow> jsval list" where
  "childrenTyped name v = filter (\<lambda>c. typeOf c = Inr (lit name)) (childrenOf v)"

text \<open>
  \<open>region ''head'' doc\<close> and \<open>region ''body'' doc\<close> are the children of the \<open>head\<close> and of
  the \<open>body\<close> element of a document; \<open>headOf\<close> reads the head of an expansion that gave
  one document, and \<open>feedUpdated\<close> the feed-level \<open>updated\<close> elements of a composed feed.
\<close>

definition region :: "string \<Rightarrow> jsval \<Rightarrow> jsval list" where
  "region name doc =
     concat (map childrenOf (filter (\<lambda>c. typeOf c = Inr (lit name)) (childrenOf doc)))"

definition feedUpdated :: "error + jsval \<Rightarrow> jsval list" where
  "feedUpdated r = (case r of Inl e \<Rightarrow> [] | Inr doc \<Rightarrow> childrenTyped ''updated'' doc)"

definition headOf :: "error + jsval list \<Rightarrow> jsval list" where
  "headOf r = (case r of Inr [doc] \<Rightarrow> region ''head'' doc | _ \<Rightarrow> [])"

text \<open>The elements that the properties look for in a head.\<close>

definition isNoindex :: "jsval \<Rightarrow> bool" where
  "isNoindex c = (typeOf c = Inr (lit ''meta'') \<and> attr c ''name'' = lit ''robots''
                  \<and> attr c ''content'' = lit ''noindex'')"

definition isCanonical :: "jsval \<Rightarrow> bool" where
  "isCanonical c = (typeOf c = Inr (lit ''link'') \<and> attr c ''rel'' = lit ''canonical'')"

definition isOgDescription :: "jsval \<Rightarrow> bool" where
  "isOgDescription c = (typeOf c = Inr (lit ''meta'') \<and> attr c ''property'' = lit ''og:description'')"

definition isJSONLD :: "jsval \<Rightarrow> bool" where
  "isJSONLD c = (typeOf c = Inr (lit ''script'') \<and> attr c ''type'' = lit ''application/ld+json'')"

text \<open>The element that \<open>OpenGraph\<close> builds for a key and a truthy value.\<close>

definition metaElement :: "jsstring \<Rightarrow> jsval \<Rightarrow> jsval" where
  "metaElement name content =
     JNode (lit ''meta'')
       [(if startsWith name (str ''twitter:'') then str ''name'' else str ''property'', JStr name),
        (str ''content'', content)] []"

text \<open>
  \<open>inert\<close>: a tree with no provider and no \<open>Document\<close> invocation in it, which expansion
  leaves as it is. \<open>isString\<close>: a string value.
\<close>

fun inert :: "jsval \<Rightarrow> bool" where
  "inert (JNode t props children) = (t \<noteq> JContext \<and> t \<noteq> JFun CDocument \<and> list_all inert children)"
| "inert v = True"

fun isString :: "jsval \<Rightarrow> bool" where
  "isString (JStr s) = True"
| "isString v = False"

text \<open>
  Parts of what \<open>Page\<close> composes, for the statements below: the path it binds, its
  \<open>title\<close> element, the mapping it gives to \<open>OpenGraph\<close>, and the mapping it gives to
  \<open>JSONLD\<close> with the \<open>keywords\<close> entries left open.
\<close>

definition pagePath :: "'md entry \<Rightarrow> jsstring" where
  "pagePath e = str ''/'' @ permalink (frontmatter e) @ str ''/''"

definition pageTitle :: "'md entry \<Rightarrow> jsval" where
  "pageTitle e =
     JNode (lit ''title'') []
       [JStr (str ''til / '' @ title (frontmatter e) @ [0x20, 0x2014, 0x20] @ str ''Lee Byron'')]"

definition pageMeta :: "('md, 'p) ext \<Rightarrow> 'md entry \<Rightarrow> (jsstring \<times> jsval) list" where
  "pageMeta X e =
     [(str ''og:url'', JStr (str ''https://leebyron.com/til/'' @ permalink (frontmatter e) @ str ''/'')),
      (str ''og:title'',
         JStr (str ''til / '' @ title (frontmatter e) @ [0x20, 0x2014, 0x20] @ str ''Lee Byron'')),
      (str ''og:description'',
         JStr (take 200 (textContent X (firstParagraph X (markdown e))))),
      (str ''og:type'', lit ''article''),
      (str ''article:author:first_name'', lit ''Lee''),
      (str ''article:author:last_name'', lit ''Byron''),
      (str ''article:published_time'', JStr (toISO (date (frontmatter e)))),
      (str ''article:modified_time'', JStr (toISO (lastModified e))),
      (str ''twitter:card'', lit ''summary''),
      (str ''twitter:creator'', lit ''@leeb'')]"

definition structuredData :: "'md entry \<Rightarrow> (jsstring \<times> json) list \<Rightarrow> (jsstring \<times> json) list" where
  "structuredData e keywords =
     [(str ''@type'', JsStr (str ''LearningResource'')),
      (str ''name'', JsStr (title (frontmatter e))),
      (str ''author'',
         JsObj [(str ''@type'', JsStr (str ''Person'')),
                (str ''name'', JsStr (str ''Lee Byron'')),
                (str ''url'', JsStr (str ''http://leebyron.com''))]),
      (str ''url'', JsStr (str ''https://leebyron.com/til/'' @ permalink (frontmatter e) @ str ''/'')),
      (str ''datePublished'', JsStr (toISO (date (frontmatter e)))),
      (str ''dateModified'', JsStr (toISO (lastModified e)))]
     @ keywords
     @ [(str ''isPartOf'', JsStr (str ''https://leebyron.com/til/'')),
        (str ''license'', JsStr (str ''https://creativecommons.org/licenses/by/4.0/''))]"

text \<open>
  The head of the page of an entry: the elements that \<open>Document\<close> puts first and last,
  and between them the \<open>title\<close>, the Open Graph elements and the JSON-LD block.
\<close>

definition pageHead :: "('md, 'p) ext \<Rightarrow> 'md entry \<Rightarrow> jsval list" where
  "pageHead X e =
     JNode (lit ''meta'') [(str ''charset'', lit ''UTF-8'')] []
     # pageTitle e
     # filter is_element (OpenGraph (pageMeta X e))
     @ JSONLD (structuredData e
                 (if tags (frontmatter e) = [] \<or> tags (frontmatter e) = [[]] then []
                  else [(str ''keywords'', JsStr (join (str '', '') (tags (frontmatter e))))]))
     # headTail X (pagePath e)"

text \<open>
  Parts of what \<open>Feed\<close> composes: \<open>render(mdjsx(markdown, { components }))\<close> of an entry,
  the \<open>entry\<close> element of an entry whose content rendered to \<open>html\<close>, and the elements in
  front of the entries.
\<close>

definition entryHTML :: "('md, 'p) ext \<Rightarrow> 'md entry \<Rightarrow> error + jsstring" where
  "entryHTML X e =
     (case mdjsx X (markdown e) (obj [(''components'', components)]) of
        Inl err \<Rightarrow> Inl err
      | Inr content \<Rightarrow> render X content)"

definition feedEntry :: "'md entry \<Rightarrow> jsstring \<Rightarrow> jsval" where
  "feedEntry e html =
     JNode (lit ''entry'') []
       ([JNode (lit ''id'') []
           [JStr (str ''https://leebyron.com/til/'' @ permalink (frontmatter e) @ str ''/'')],
         JNode (lit ''link'')
           [(str ''rel'', lit ''alternate''), (str ''type'', lit ''text/html''),
            (str ''href'',
             JStr (str ''https://leebyron.com/til/'' @ permalink (frontmatter e) @ str ''/''))] [],
         JNode (lit ''published'') [] [JStr (toISO (date (frontmatter e)))],
         JNode (lit ''updated'') [] [JStr (toISO (lastModified e))],
         JNode (lit ''title'') [] [JStr (title (frontmatter e))],
         JNode (lit ''author'') []
           [JNode (lit ''name'') [] [lit ''Lee Byron''],
            JNode (lit ''uri'') [] [lit ''https://leebyron.com'']]]
        @ map (\<lambda>tag. JNode (lit ''category'') [(str ''term'', JStr tag)] []) (tags (frontmatter e))
        @ [JNode (lit ''content'')
             [(str ''type'', lit ''html''),
              (str ''innerHTML'', JStr (str ''<![CDATA['' @ html @ str '']]>''))] [],
           JNode (lit ''rights'') []
             [JStr ([0xA9, 0x20] @ numberToString (year (date (frontmatter e))) @ str '' Lee Byron ''
                    @ [0x2E31] @ str '' licensed under CC BY 4.0'')]])"

definition feedHead :: "jsstring \<Rightarrow> jsval list" where
  "feedHead updated =
     [JNode (lit ''id'') [] [lit ''https://leebyron.com/til/feed.xml''],
      JNode (lit ''link'')
        [(str ''rel'', lit ''self''), (str ''type'', lit ''application/atom+xml''),
         (str ''href'', lit ''https://leebyron.com/til/feed.xml'')] [],
      JNode (lit ''link'')
        [(str ''rel'', lit ''alternate''), (str ''type'', lit ''text/html''),
         (str ''href'', lit ''https://leebyron.com/til/'')] [],
      JNode (lit ''updated'') [] [JStr updated],
      JNode (lit ''title'') [] [lit ''Lee Byron / til''],
      JNode (lit ''subtitle'') []
        [lit ''Today I Learned: A bunch of brief blurbs on miscellaneous matter.''],
      JNode (lit ''icon'') [] [lit ''https://leebyron.com/til/assets/favicon.png''],
      JNode (lit ''author'') []
        [JNode (lit ''name'') [] [lit ''Lee Byron''],
         JNode (lit ''uri'') [] [lit ''https://leebyron.com'']],
      JNode (lit ''rights'') []
        [JStr ([0xA9] @ str '' 2022 Lee Byron '' @ [0x2E31] @ str '' licensed under CC BY 4.0'')],
      JNode (lit ''generator'') [(str ''uri'', lit ''https://github.com/leebyron/til'')]
        [lit ''til'']]"

text \<open>
  Concrete inputs. \<open>sampleExt\<close> stands in for the imports on entries whose markdown is one
  paragraph of plain text: \<open>relative\<close> as \<open>path.relative\<close> answers from a directory one
  level below the root. \<open>sampleEntry\<close> is the entry of the spec's scenario; the others
  differ from it, and \<open>twinEntry\<close> and \<open>zonedEntry\<close> from \<open>laterEntry\<close>, in the fields named.
  \<open>zonedDate\<close> is the instant of \<open>laterDate\<close> in a zone two hours ahead.
\<close>

definition sampleExt :: "(jsstring, jsstring) ext" where
  "sampleExt =
     \<lparr> relative = (\<lambda>from to. str ''..'' @ to),
       firstParagraph = (\<lambda>md. md),
       textContent = (\<lambda>p. p),
       mdjsx = (\<lambda>md options. Inr (h (lit ''p'') [JStr md])),
       render = (\<lambda>v. case v of
                        JNode t props [JStr s] \<Rightarrow> Inr (str ''<p>'' @ s @ str ''</p>'')
                      | _ \<Rightarrow> Inl (Thrown ''unsupported'')) \<rparr>"

definition sampleDate :: datetime where
  "sampleDate = \<lparr> valueOf = 1672531200000, toISO = str ''2023-01-01T00:00:00.000Z'', year = 2023 \<rparr>"

definition laterDate :: datetime where
  "laterDate = \<lparr> valueOf = 1686787200000, toISO = str ''2023-06-15T00:00:00.000Z'', year = 2023 \<rparr>"

definition zonedDate :: datetime where
  "zonedDate =
     \<lparr> valueOf = 1686787200000, toISO = str ''2023-06-15T02:00:00.000+02:00'', year = 2023 \<rparr>"

definition sampleEntry :: "jsstring entry" where
  "sampleEntry =
     \<lparr> filename = str ''x.md'',
       lastModified = sampleDate,
       frontmatter = \<lparr> title = str ''X'', permalink = str ''x'', date = sampleDate, tags = [],
                       published = JUndefined \<rparr>,
       markdown = str ''Hello'' \<rparr>"

definition sampleContent :: jsval where
  "sampleContent = JFun (CSupplied ''Content'')"

definition laterEntry :: "jsstring entry" where
  "laterEntry =
     \<lparr> filename = str ''y.md'',
       lastModified = laterDate,
       frontmatter = \<lparr> title = str ''Y'', permalink = str ''y'', date = sampleDate,
                       tags = [str ''vim'', str ''tips''], published = JUndefined \<rparr>,
       markdown = str ''World'' \<rparr>"

definition twinEntry :: "jsstring entry" where
  "twinEntry = laterEntry \<lparr> frontmatter := (frontmatter laterEntry) \<lparr> permalink := str ''x'' \<rparr> \<rparr>"

definition zonedEntry :: "jsstring entry" where
  "zonedEntry = laterEntry \<lparr> lastModified := zonedDate \<rparr>"

definition hiddenEntry :: "jsstring entry" where
  "hiddenEntry = sampleEntry \<lparr> frontmatter := (frontmatter sampleEntry) \<lparr> published := JBool False \<rparr> \<rparr>"

definition blankEntry :: "jsstring entry" where
  "blankEntry = sampleEntry \<lparr> markdown := [] \<rparr>"

definition blankTagEntry :: "jsstring entry" where
  "blankTagEntry = sampleEntry \<lparr> frontmatter := (frontmatter sampleEntry) \<lparr> tags := [[]] \<rparr> \<rparr>"

section \<open>Children as the Node Builder leaves them\<close>

lemma flatten_fixed: "c \<in> set (flatten v) \<Longrightarrow> flatten c = [c]"
  by (induction v rule: flatten.induct) (auto split: if_splits)

lemma flattenAll_fixed: "c \<in> set (flattenAll vs) \<Longrightarrow> flatten c = [c]"
  by (auto simp: flattenAll_def dest: flatten_fixed)

lemma flattenAll_id: "\<forall>c \<in> set cs. flatten c = [c] \<Longrightarrow> flattenAll cs = cs"
  unfolding flattenAll_def by (induction cs) auto

lemma flatten_JArr_id: "\<forall>c \<in> set cs. flatten c = [c] \<Longrightarrow> flatten (JArr cs) = cs"
  using flattenAll_id by (simp add: flattenAll_def)

lemma isHeadElement_fixed: "flatten c = [c] \<Longrightarrow> isHeadElement c = Inr (headType c)"
  by (cases c) (auto simp: isHeadElement_def headType_def)

lemma filterE_isHeadElement:
  "\<forall>c \<in> set cs. flatten c = [c] \<Longrightarrow> filterE isHeadElement cs = Inr (filter headType cs)"
  by (induction cs) (auto simp: isHeadElement_fixed)

lemma filterE_not_isHeadElement:
  "\<forall>c \<in> set cs. flatten c = [c] \<Longrightarrow>
   filterE (\<lambda>child. case isHeadElement child of Inl e \<Rightarrow> Inl e | Inr b \<Rightarrow> Inr (\<not> b)) cs
   = Inr (filter (\<lambda>c. \<not> headType c) cs)"
  by (induction cs) (auto simp: isHeadElement_fixed)

lemma Document_children:
  assumes "\<forall>c \<in> set cs. flatten c = [c]"
  shows "Document X (JStr p) cs =
     Inr (JNode (lit ''html'') []
            [JNode (lit ''head'') []
               (JNode (lit ''meta'') [(str ''charset'', lit ''UTF-8'')] []
                # filter headType cs @ headTail X p),
             JNode (lit ''body'') [] (bodyHeader X p # filter (\<lambda>c. \<not> headType c) cs)])"
proof -
  have h: "flatten (JArr (filter headType cs)) = filter headType cs"
    and b: "flatten (JArr (filter (\<lambda>c. \<not> headType c) cs)) = filter (\<lambda>c. \<not> headType c) cs"
    using assms by (simp_all add: flatten_JArr_id del: flatten.simps)
  show ?thesis
    unfolding Document_def filterE_isHeadElement [OF assms] filterE_not_isHeadElement [OF assms]
    by (simp add: obj_def flattenAll_def h b headTail_def bodyHeader_def del: flatten.simps(1))
qed

lemma truthy_not_element: "\<not> truthy v \<Longrightarrow> \<not> is_element v"
  by (cases v) auto

section \<open>Expansion of inert trees\<close>

lemma flattenAll_simps [simp]:
  "flattenAll [] = []" "flattenAll (x # xs) = flatten x @ flattenAll xs"
  by (simp_all add: flattenAll_def)

lemma expand_provider:
  "expand X path (JNode JContext props children) =
     expandAll X (case map_of props (str ''value'') of Some b \<Rightarrow> b | None \<Rightarrow> JUndefined) children"
  by (simp add: expand.simps)

lemma expand_Document:
  "expand X path (JNode (JFun CDocument) props children) =
     (case Document X path children of Inl e \<Rightarrow> Inl e | Inr doc \<Rightarrow> expand X path doc)"
  by (simp add: expand.simps)

lemma expand_element:
  "t \<noteq> JContext \<Longrightarrow> t \<noteq> JFun CDocument \<Longrightarrow>
   expand X path (JNode t props children) =
     (case expandAll X path children of Inl e \<Rightarrow> Inl e | Inr cs \<Rightarrow> Inr [JNode t props cs])"
  by (simp add: expand.simps)

lemma expandAll_append:
  "expandAll X path (xs @ ys) =
     (case expandAll X path xs of
        Inl e \<Rightarrow> Inl e
      | Inr a \<Rightarrow> (case expandAll X path ys of Inl e \<Rightarrow> Inl e | Inr b \<Rightarrow> Inr (a @ b)))"
  by (induction xs) (auto split: sum.splits)

lemma expand_inert:
  "inert v \<Longrightarrow> expand X path v = Inr [v]"
  "list_all inert vs \<Longrightarrow> expandAll X path vs = Inr vs"
proof (induction X path v and X path vs rule: expand_expandAll.induct)
  case (1 X path v)
  then show ?case by (cases v) (auto simp: expand.simps)
qed auto

lemma inert_chrome:
  "list_all inert (headTail X p)" "inert (bodyHeader X p)"
  by (simp_all add: headTail_def bodyHeader_def lit_def)

lemma expand_leaf: "\<exists>r. expand X (JStr p) (JNode t props []) = Inr r \<and> list_all inert r"
proof -
  consider "t = JContext" | "t = JFun CDocument" | "t \<noteq> JContext" "t \<noteq> JFun CDocument" by blast
  then show ?thesis
  proof cases
    case 1 then show ?thesis by (simp add: expand_provider)
  next
    case 2
    let ?doc = "JNode (lit ''html'') []
            [JNode (lit ''head'') []
               (JNode (lit ''meta'') [(str ''charset'', lit ''UTF-8'')] [] # headTail X p),
             JNode (lit ''body'') [] [bodyHeader X p]]"
    have "inert ?doc" by (simp add: inert_chrome) (simp add: lit_def)
    moreover have "Document X (JStr p) [] = Inr ?doc"
      using Document_children [of "[]" X p] by simp
    ultimately show ?thesis using 2 by (simp add: expand_Document expand_inert)
  next
    case 3 then show ?thesis by (simp add: expand_element)
  qed
qed

section \<open>Open Graph elements of string-valued mappings\<close>

lemma isString_facts:
  assumes "isString v"
  shows "flatten v = [v]" "\<not> headType v" "\<not> is_element v" "inert v"
  using assms by (cases v; simp add: headType_def lit_def)+

lemma metaElement_facts:
  "flatten (metaElement k v) = [metaElement k v]" "headType (metaElement k v)"
  "is_element (metaElement k v)" "inert (metaElement k v) = list_all inert []"
  by (simp_all add: metaElement_def headType_def) (simp add: lit_def)

lemma OpenGraph_Cons:
  "OpenGraph ((k, v) # data) = (if truthy v then metaElement k v else v) # OpenGraph data"
  by (simp add: OpenGraph_def metaElement_def)

lemma OpenGraph_strings:
  assumes "\<forall>(k, v) \<in> set data. isString v"
  shows "flattenAll (OpenGraph data) = OpenGraph data"
    and "filter headType (OpenGraph data) = filter is_element (OpenGraph data)"
    and "filter (\<lambda>c. \<not> headType c) (OpenGraph data) = filter isString (OpenGraph data)"
    and "list_all inert (OpenGraph data)"
    and "\<forall>c \<in> set (OpenGraph data). flatten c = [c]"
  using assms
proof (induction data)
  case Nil
  case 1 show ?case by (simp add: OpenGraph_def)
  case 2 show ?case by (simp add: OpenGraph_def)
  case 3 show ?case by (simp add: OpenGraph_def)
  case 4 show ?case by (simp add: OpenGraph_def)
  case 5 show ?case by (simp add: OpenGraph_def)
next
  case (Cons kv data)
  obtain k v where kv: "kv = (k, v)" by (cases kv)
  have m: "\<not> isString (metaElement k v)" by (simp add: metaElement_def)
  case 1
  then have v: "isString v" and rest: "\<forall>(k, v) \<in> set data. isString v" by (simp_all add: kv)
  show ?case unfolding kv OpenGraph_Cons
    using isString_facts [OF v] Cons.IH(1) [OF rest] by (simp add: metaElement_facts)
  case 2
  show ?case unfolding kv OpenGraph_Cons
    using isString_facts [OF v] Cons.IH(2) [OF rest] by (simp add: metaElement_facts)
  case 3
  show ?case unfolding kv OpenGraph_Cons
    using isString_facts [OF v] v m Cons.IH(3) [OF rest] by (simp add: metaElement_facts)
  case 4
  show ?case unfolding kv OpenGraph_Cons
    using isString_facts [OF v] Cons.IH(4) [OF rest] by (simp add: metaElement_facts)
  case 5
  show ?case unfolding kv OpenGraph_Cons
    using isString_facts [OF v] Cons.IH(5) [OF rest] by (simp add: metaElement_facts)
qed

text \<open>
  The elements of \<open>OpenGraph\<close>'s result that a predicate selects, when the predicate
  depends on the key alone.
\<close>

lemma OpenGraph_selected:
  assumes "\<And>k v. P (metaElement k v) \<longleftrightarrow> Q k"
  shows "filter P (filter is_element (OpenGraph data))
         = map (\<lambda>(k, v). metaElement k v) (filter (\<lambda>(k, v). Q k \<and> truthy v) data)"
proof (induction data)
  case Nil
  show ?case by (simp add: OpenGraph_def)
next
  case (Cons kv data)
  obtain k v where kv: "kv = (k, v)" by (cases kv)
  show ?case
  proof (cases "truthy v")
    case True
    with Cons assms [of k v] show ?thesis
      unfolding kv OpenGraph_Cons by (simp add: metaElement_facts)
  next
    case False
    with Cons truthy_not_element [of v] show ?thesis
      unfolding kv OpenGraph_Cons by simp
  qed
qed

section \<open>The composed entry page\<close>

lemma JSONLD_node: "\<exists>text. JSONLD d = JNode (lit ''script'') [(str ''type'', lit ''application/ld+json''), (str ''innerHTML'', JStr text)] []"
  by (simp add: JSONLD_def obj_def Let_def flattenAll_def)

lemma JSONLD_facts: "flatten (JSONLD d) = [JSONLD d]" "headType (JSONLD d)" "inert (JSONLD d)" "is_element (JSONLD d)"
  "\<not> isNoindex (JSONLD d)"
  using JSONLD_node [of d] by (auto simp: headType_def lit_def isNoindex_def str_def)

lemma flatten_lit [simp]: "flatten (lit s) = [lit s]"
  by (simp add: lit_def)

lemma flattenAll_append: "flattenAll (xs @ ys) = flattenAll xs @ flattenAll ys"
  by (simp add: flattenAll_def)

lemma pageMeta_strings: "\<forall>(k, v) \<in> set (pageMeta X e). isString v"
  by (simp add: pageMeta_def lit_def)

lemma Page_tree:
  "\<exists>article footer.
     \<not> headType article \<and> \<not> headType footer \<and> is_element article \<and> is_element footer \<and>
     (\<exists>r. expandAll X (JStr (pagePath e)) [article, footer] = Inr r) \<and>
     Page X e C =
     JNode JContext [(str ''value'', JStr (pagePath e))]
       [JNode (JFun CDocument) []
          ((if published (frontmatter e) = JBool False then [JNaN] else [])
           @ [pageTitle e]
           @ OpenGraph (pageMeta X e)
           @ [JSONLD (structuredData e
                        [(str ''keywords'',
                          if join (str '', '') (tags (frontmatter e)) \<noteq> []
                          then JsStr (join (str '', '') (tags (frontmatter e)))
                          else JsUndefined)]),
              article, footer])]"
proof -
  let ?h1 = "JNode (lit ''h1'') []
               [JNode (lit ''a'') [(str ''href'', lit ''../'')] [lit ''til''],
                JNode (lit ''span'') [] [JStr (title (frontmatter e))]]"
  let ?content = "JNode C [(str ''components'', components)] []"
  let ?article = "JNode (lit ''article'') [] [?h1, ?content]"
  let ?footer = "JNode (lit ''footer'') []
      [JNode (JFun CLicense) [(str ''year'', JNum (year (date (frontmatter e))))]
         [JNode (JFun CAttribution)
            [(str ''filename'', JStr (filename e)),
             (str ''frontmatter'', frontmatterValue (frontmatter e))] []]]"
  have inert: "inert ?h1" "inert ?footer"
    by (simp_all add: lit_def)
  obtain r where r: "expand X (JStr (pagePath e)) ?content = Inr r"
    using expand_leaf by blast
  have "expandAll X (JStr (pagePath e)) [?article, ?footer] = Inr [JNode (lit ''article'') [] (?h1 # r), ?footer]"
    using inert r by (simp add: expand_element lit_def expand_inert del: inert.simps)
  moreover have "\<not> headType ?article" "\<not> headType ?footer"
    by (simp_all add: headType_def lit_def str_def)
  moreover have "is_element ?article" "is_element ?footer"
    by simp_all
  moreover have "Page X e C =
     JNode JContext [(str ''value'', JStr (pagePath e))]
       [JNode (JFun CDocument) []
          ((if published (frontmatter e) = JBool False then [JNaN] else [])
           @ [pageTitle e]
           @ OpenGraph (pageMeta X e)
           @ [JSONLD (structuredData e
                        [(str ''keywords'',
                          if join (str '', '') (tags (frontmatter e)) \<noteq> []
                          then JsStr (join (str '', '') (tags (frontmatter e)))
                          else JsUndefined)]),
              ?article, ?footer])]"
    unfolding Page_def Let_def
    unfolding pageMeta_def [symmetric]
    apply (simp add: JSONLD_facts OpenGraph_strings(1) [OF pageMeta_strings] flattenAll_append
        obj_def negate_element_def pagePath_def pageTitle_def structuredData_def)
    done
  ultimately show ?thesis by blast
qed

lemma is_element_flat: "is_element v \<Longrightarrow> flatten v = [v]"
  by (cases v) auto

lemma pageTitle_facts:
  "flatten (pageTitle e) = [pageTitle e]" "headType (pageTitle e)" "inert (pageTitle e)"
  by (simp_all add: pageTitle_def headType_def lit_def)

lemma inert_elements: "list_all inert xs \<Longrightarrow> list_all inert (filter P xs)"
  by (induction xs) auto

lemma isString_inert: "list_all inert (filter isString xs)"
  by (induction xs) (auto simp: isString_facts)

lemma expand_html:
  assumes "expandAll X path hs = Inr hs'" and "expandAll X path bs = Inr bs'"
  shows "expand X path (JNode (lit ''html'') [] [JNode (lit ''head'') [] hs, JNode (lit ''body'') [] bs])
         = Inr [JNode (lit ''html'') [] [JNode (lit ''head'') [] hs', JNode (lit ''body'') [] bs']]"
  using assms by (simp add: expand_element lit_def)

lemma expand_provided_Document:
  assumes "Document X (JStr p) cs = Inr doc" and "expand X (JStr p) doc = Inr r"
  shows "expand X outer (JNode JContext [(str ''value'', JStr p)] [JNode (JFun CDocument) [] cs])
         = Inr r"
  using assms by (simp add: expand_provider expand_Document)

lemma headType_JNaN: "\<not> headType JNaN"
  by (simp add: headType_def lit_def)

lemma Page_expand:
  "\<exists>rest. \<forall>outer.
     expand X outer (Page X e C) =
       Inr [JNode (lit ''html'') []
              [JNode (lit ''head'') []
                 (JNode (lit ''meta'') [(str ''charset'', lit ''UTF-8'')] []
                  # pageTitle e
                  # filter is_element (OpenGraph (pageMeta X e))
                  @ JSONLD (structuredData e
                        [(str ''keywords'',
                          if join (str '', '') (tags (frontmatter e)) \<noteq> []
                          then JsStr (join (str '', '') (tags (frontmatter e)))
                          else JsUndefined)])
                  # headTail X (pagePath e)),
               JNode (lit ''body'') []
                 (bodyHeader X (pagePath e)
                  # (if published (frontmatter e) = JBool False then [JNaN] else [])
                  @ rest)]]"
proof -
  let ?ld = "JSONLD (structuredData e
                        [(str ''keywords'',
                          if join (str '', '') (tags (frontmatter e)) \<noteq> []
                          then JsStr (join (str '', '') (tags (frontmatter e)))
                          else JsUndefined)])"
  let ?pre = "if published (frontmatter e) = JBool False then [JNaN] else []"
  let ?og = "OpenGraph (pageMeta X e)"
  let ?p = "pagePath e"
  obtain article footer r where
    a: "\<not> headType article" "\<not> headType footer" "is_element article" "is_element footer"
    and r: "expandAll X (JStr ?p) [article, footer] = Inr r"
    and page: "Page X e C = JNode JContext [(str ''value'', JStr ?p)]
       [JNode (JFun CDocument) [] (?pre @ [pageTitle e] @ ?og @ [?ld, article, footer])]"
    using Page_tree [of X e C] by blast
  let ?cs = "?pre @ [pageTitle e] @ ?og @ [?ld, article, footer]"
  note og = OpenGraph_strings [OF pageMeta_strings, of X e]
  have flat: "\<forall>c \<in> set ?cs. flatten c = [c]"
    using og(5) a(3,4) by (auto simp: pageTitle_facts JSONLD_facts is_element_flat)
  have heads: "filter headType ?cs = pageTitle e # filter is_element ?og @ [?ld]"
    using a(1,2) by (simp add: og(2) pageTitle_facts JSONLD_facts headType_JNaN)
  have bodies: "filter (\<lambda>c. \<not> headType c) ?cs = ?pre @ filter isString ?og @ [article, footer]"
    using a(1,2) by (simp add: og(3) pageTitle_facts JSONLD_facts headType_JNaN)
  let ?head = "JNode (lit ''meta'') [(str ''charset'', lit ''UTF-8'')] []
                  # pageTitle e # filter is_element ?og @ ?ld # headTail X ?p"
  let ?doc = "JNode (lit ''html'') []
            [JNode (lit ''head'') [] ?head,
             JNode (lit ''body'') [] (bodyHeader X ?p # ?pre @ filter isString ?og @ [article, footer])]"
  have doc: "Document X (JStr ?p) ?cs = Inr ?doc"
    unfolding Document_children [OF flat] heads bodies by simp
  have "list_all inert ?head"
    using og(4) by (simp add: pageTitle_facts JSONLD_facts inert_chrome inert_elements lit_def)
  then have head: "expandAll X (JStr ?p) ?head = Inr ?head"
    by (rule expand_inert)
  have "list_all inert (bodyHeader X ?p # ?pre @ filter isString ?og)"
    by (simp add: inert_chrome isString_inert)
  then have "expandAll X (JStr ?p) (bodyHeader X ?p # ?pre @ filter isString ?og)
             = Inr (bodyHeader X ?p # ?pre @ filter isString ?og)"
    by (rule expand_inert)
  then have body: "expandAll X (JStr ?p) (bodyHeader X ?p # ?pre @ filter isString ?og @ [article, footer])
             = Inr (bodyHeader X ?p # ?pre @ filter isString ?og @ r)"
    using expandAll_append [of X "JStr ?p" "bodyHeader X ?p # ?pre @ filter isString ?og" "[article, footer]"] r
    by simp
  have "expand X (JStr ?p) ?doc = Inr [JNode (lit ''html'') []
              [JNode (lit ''head'') [] ?head,
               JNode (lit ''body'') [] (bodyHeader X ?p # ?pre @ filter isString ?og @ r)]]"
    by (rule expand_html [OF head body])
  from expand_provided_Document [OF doc this]
  have "\<forall>outer. expand X outer (Page X e C) = Inr [JNode (lit ''html'') []
              [JNode (lit ''head'') [] ?head,
               JNode (lit ''body'') [] (bodyHeader X ?p # ?pre @ (filter isString ?og @ r))]]"
    unfolding page by blast
  then show ?thesis by blast
qed

section \<open>Elements of the page head\<close>

lemma region_html:
  "region ''head'' (JNode t props [JNode (lit ''head'') ps hs, JNode (lit ''body'') qs bs]) = hs"
  "region ''body'' (JNode t props [JNode (lit ''head'') ps hs, JNode (lit ''body'') qs bs]) = bs"
  by (simp_all add: region_def lit_def str_def)

lemma OpenGraph_no_link: "filter isCanonical (filter is_element (OpenGraph data)) = []"
proof -
  have "isCanonical (metaElement k v) \<longleftrightarrow> False" for k v
    by (simp add: isCanonical_def metaElement_def lit_def str_def)
  from OpenGraph_selected [of isCanonical "\<lambda>k. False", OF this] show ?thesis by simp
qed

lemma OpenGraph_no_jsonld: "filter isJSONLD (filter is_element (OpenGraph data)) = []"
proof -
  have "isJSONLD (metaElement k v) \<longleftrightarrow> False" for k v
    by (simp add: isJSONLD_def metaElement_def lit_def str_def)
  from OpenGraph_selected [of isJSONLD "\<lambda>k. False", OF this] show ?thesis by simp
qed

lemma robots_not_twitter: "\<not> startsWith (str ''robots'') (str ''twitter:'')"
  by (simp add: startsWith_def str_def)

lemma OpenGraph_no_noindex: "filter isNoindex (filter is_element (OpenGraph data)) = []"
proof -
  have "isNoindex (metaElement k v) \<longleftrightarrow> False" for k v
  proof (cases "k = str ''robots''")
    case True
    then show ?thesis using robots_not_twitter
      by (simp add: isNoindex_def attr_def metaElement_def lit_def) (simp add: str_def)
  next
    case False
    then show ?thesis
      by (auto simp: isNoindex_def attr_def metaElement_def lit_def) (simp_all add: str_def)
  qed
  from OpenGraph_selected [of isNoindex "\<lambda>k. False", OF this] show ?thesis by simp
qed

lemma headTail_canonical:
  "filter isCanonical (headTail X p) =
     [JNode (lit ''link'')
        [(str ''rel'', lit ''canonical''), (str ''href'', JStr (str ''https://leebyron.com/til'' @ p))] []]"
  by (simp add: headTail_def isCanonical_def attr_def lit_def str_def)

lemma headTail_others:
  "filter isNoindex (headTail X p) = []"
  "filter isOgDescription (headTail X p) = []"
  "filter isJSONLD (headTail X p) = []"
  by (simp_all add: headTail_def isNoindex_def isOgDescription_def isJSONLD_def attr_def lit_def str_def)

lemma fixed_head_elements:
  "\<not> isCanonical (JNode (lit ''meta'') [(str ''charset'', lit ''UTF-8'')] [])"
  "\<not> isNoindex (JNode (lit ''meta'') [(str ''charset'', lit ''UTF-8'')] [])"
  "\<not> isOgDescription (JNode (lit ''meta'') [(str ''charset'', lit ''UTF-8'')] [])"
  "\<not> isJSONLD (JNode (lit ''meta'') [(str ''charset'', lit ''UTF-8'')] [])"
  "\<not> isCanonical (pageTitle e)" "\<not> isNoindex (pageTitle e)"
  "\<not> isOgDescription (pageTitle e)" "\<not> isJSONLD (pageTitle e)"
  by (simp_all add: isCanonical_def isNoindex_def isOgDescription_def isJSONLD_def attr_def
        pageTitle_def lit_def str_def)

lemma JSONLD_kinds:
  "\<not> isCanonical (JSONLD d)" "\<not> isOgDescription (JSONLD d)" "isJSONLD (JSONLD d)"
  "\<not> isNoindex (JSONLD d)"
  using JSONLD_node [of d]
  by (auto simp: isCanonical_def isOgDescription_def isJSONLD_def isNoindex_def attr_def lit_def
        str_def)

lemma description_not_twitter: "\<not> startsWith (str ''og:description'') (str ''twitter:'')"
  by (simp add: startsWith_def str_def)

lemma og_element_description:
  "isOgDescription (metaElement k v) \<longleftrightarrow> k = str ''og:description''"
proof (cases "startsWith k (str ''twitter:'')")
  case True
  then have "k \<noteq> str ''og:description''" using description_not_twitter by auto
  moreover have "str ''name'' \<noteq> str ''property''" "str ''content'' \<noteq> str ''property''"
    by (simp_all add: str_def)
  ultimately show ?thesis using True
    by (simp add: isOgDescription_def attr_def metaElement_def lit_def)
next
  case False
  then show ?thesis by (simp add: isOgDescription_def attr_def metaElement_def lit_def)
qed

lemma pageMeta_keys:
  "filter (\<lambda>(k, v). k = str ''og:description'' \<and> truthy v) (pageMeta X e) =
     (if take 200 (textContent X (firstParagraph X (markdown e))) = [] then []
      else [(str ''og:description'', JStr (take 200 (textContent X (firstParagraph X (markdown e)))))])"
proof -
  have ne: "str ''og:url'' \<noteq> str ''og:description''" "str ''og:title'' \<noteq> str ''og:description''"
    "str ''og:type'' \<noteq> str ''og:description''"
    "str ''article:author:first_name'' \<noteq> str ''og:description''"
    "str ''article:author:last_name'' \<noteq> str ''og:description''"
    "str ''article:published_time'' \<noteq> str ''og:description''"
    "str ''article:modified_time'' \<noteq> str ''og:description''"
    "str ''twitter:card'' \<noteq> str ''og:description''"
    "str ''twitter:creator'' \<noteq> str ''og:description''"
    by (simp_all add: str_def)
  show ?thesis unfolding pageMeta_def by (simp add: ne)
qed

lemma pageMeta_description:
  "filter isOgDescription (filter is_element (OpenGraph (pageMeta X e))) =
     (if take 200 (textContent X (firstParagraph X (markdown e))) = [] then []
      else [JNode (lit ''meta'')
              [(str ''property'', lit ''og:description''),
               (str ''content'', JStr (take 200 (textContent X (firstParagraph X (markdown e)))))] []])"
  unfolding OpenGraph_selected [of isOgDescription "\<lambda>k. k = str ''og:description''",
      OF og_element_description] pageMeta_keys
  using description_not_twitter by (simp add: metaElement_def lit_def)

lemma pageHead_elements:
  "filter isCanonical (pageHead X e)
     = [JNode (lit ''link'')
          [(str ''rel'', lit ''canonical''),
           (str ''href'', JStr (str ''https://leebyron.com/til'' @ pagePath e))] []]"
  "filter isNoindex (pageHead X e) = []"
  "filter isOgDescription (pageHead X e)
     = (if take 200 (textContent X (firstParagraph X (markdown e))) = [] then []
        else [JNode (lit ''meta'')
                [(str ''property'', lit ''og:description''),
                 (str ''content'',
                  JStr (take 200 (textContent X (firstParagraph X (markdown e)))))] []])"
  "filter isJSONLD (pageHead X e)
     = [JSONLD (structuredData e
                 (if tags (frontmatter e) = [] \<or> tags (frontmatter e) = [[]] then []
                  else [(str ''keywords'', JsStr (join (str '', '') (tags (frontmatter e))))]))]"
  unfolding pageHead_def
  by (simp_all add: fixed_head_elements OpenGraph_no_link OpenGraph_no_noindex OpenGraph_no_jsonld
        pageMeta_description JSONLD_kinds headTail_canonical headTail_others del: filter_filter)

section \<open>The keywords entry of the structured data\<close>

lemma serialize_skip_undefined:
  "serialize d (JsObj (ps @ (k, JsUndefined) # qs)) = serialize d (JsObj (ps @ qs))"
  by simp

lemma spread_structuredData:
  assumes "keywords = [] \<or> (\<exists>v. keywords = [(str ''keywords'', v)])"
  shows "spread [(str ''@context'', c)] (structuredData e keywords)
         = (str ''@context'', c) # structuredData e keywords"
  using assms unfolding spread_def structuredData_def
  by (auto simp: str_def)

lemma JSONLD_keywords_undefined:
  "JSONLD (structuredData e [(str ''keywords'', JsUndefined)]) = JSONLD (structuredData e [])"
proof -
  have "stringify (JsObj ((str ''@context'', c) # structuredData e [(str ''keywords'', JsUndefined)]))
        = stringify (JsObj ((str ''@context'', c) # structuredData e []))" for c
    unfolding stringify_def structuredData_def
    using serialize_skip_undefined by simp
  then show ?thesis
    unfolding JSONLD_def Let_def by (simp add: spread_structuredData)
qed

lemma JSONLD_keywords_differ:
  "JSONLD (structuredData e [(str ''keywords'', JsStr s)]) \<noteq> JSONLD (structuredData e [])"
proof
  assume "JSONLD (structuredData e [(str ''keywords'', JsStr s)]) = JSONLD (structuredData e [])"
  then have "stringify (JsObj ((str ''@context'', JsStr (str ''https://schema.org/''))
                               # structuredData e [(str ''keywords'', JsStr s)]))
           = stringify (JsObj ((str ''@context'', JsStr (str ''https://schema.org/''))
                               # structuredData e []))"
    by (simp add: JSONLD_def Let_def spread_structuredData obj_def)
  then have "length (stringify (JsObj ((str ''@context'', JsStr (str ''https://schema.org/''))
                               # structuredData e [(str ''keywords'', JsStr s)])))
           = length (stringify (JsObj ((str ''@context'', JsStr (str ''https://schema.org/''))
                               # structuredData e [])))"
    by simp
  then show False
    by (simp add: stringify_def structuredData_def)
qed

lemma join_empty: "sep \<noteq> [] \<Longrightarrow> join sep ts = [] \<longleftrightarrow> ts = [] \<or> ts = [[]]"
  by (induction sep ts rule: join.induct) auto

lemma Page_head:
  "\<exists>doc. (\<forall>outer. expand X outer (Page X e C) = Inr [doc]) \<and>
     region ''head'' doc = pageHead X e \<and>
     (\<exists>rest. region ''body'' doc =
        bodyHeader X (pagePath e)
        # (if published (frontmatter e) = JBool False then [JNaN] else []) @ rest)"
proof -
  have sep: "str '', '' \<noteq> []" by (simp add: str_def)
  have kw: "JSONLD (structuredData e
                        [(str ''keywords'',
                          if join (str '', '') (tags (frontmatter e)) \<noteq> []
                          then JsStr (join (str '', '') (tags (frontmatter e)))
                          else JsUndefined)])
          = JSONLD (structuredData e
                   (if tags (frontmatter e) = [] \<or> tags (frontmatter e) = [[]] then []
                    else [(str ''keywords'', JsStr (join (str '', '') (tags (frontmatter e))))]))"
    using join_empty [OF sep, of "tags (frontmatter e)"]
    by (auto simp: JSONLD_keywords_undefined)
  obtain rest where "\<forall>outer.
     expand X outer (Page X e C) =
       Inr [JNode (lit ''html'') []
              [JNode (lit ''head'') []
                 (JNode (lit ''meta'') [(str ''charset'', lit ''UTF-8'')] []
                  # pageTitle e
                  # filter is_element (OpenGraph (pageMeta X e))
                  @ JSONLD (structuredData e
                        [(str ''keywords'',
                          if join (str '', '') (tags (frontmatter e)) \<noteq> []
                          then JsStr (join (str '', '') (tags (frontmatter e)))
                          else JsUndefined)])
                  # headTail X (pagePath e)),
               JNode (lit ''body'') []
                 (bodyHeader X (pagePath e)
                  # (if published (frontmatter e) = JBool False then [JNaN] else [])
                  @ rest)]]"
    using Page_expand [of X e C] by blast
  then show ?thesis
    unfolding kw pageHead_def by (intro exI conjI) (assumption, simp_all only: region_html)
qed

section \<open>The composed feed\<close>

lemma h_lit [simp]: "h t (lit s # cs) = JNode t [] (flattenAll (lit s # cs))"
  by (simp add: lit_def)

lemma flatten_elements: "\<forall>x \<in> set xs. is_element x \<Longrightarrow> flatten (JArr xs) = xs"
  by (rule flatten_JArr_id) (simp add: is_element_flat)

lemma Feed_entry_html:
  "Feed_entry X e = (case entryHTML X e of Inl err \<Rightarrow> Inl err | Inr html \<Rightarrow> Inr (feedEntry e html))"
proof -
  have "flatten (JArr (map (\<lambda>tag. h (lit ''category'') [obj [(''term'', JStr tag)]]) (tags (frontmatter e))))
   = map (\<lambda>tag. JNode (lit ''category'') [(str ''term'', JStr tag)] []) (tags (frontmatter e))"
    by (simp add: obj_def flatten_elements del: flatten.simps(1))
  then show ?thesis
    unfolding Feed_entry_def entryHTML_def feedEntry_def Let_def
    by (simp add: obj_def del: flatten.simps(1) split: sum.splits)
qed

lemma mapE_Inr:
  "\<forall>x \<in> set xs. \<exists>y. f x = Inr y \<Longrightarrow> mapE f xs = Inr (map (\<lambda>x. projr (f x)) xs)"
  by (induction xs) auto

lemma sorted_le_last: "sorted (ys :: int list) \<Longrightarrow> y \<in> set ys \<Longrightarrow> y \<le> last ys"
  by (induction ys) auto

lemma last_sort_key:
  fixes f :: "'a \<Rightarrow> int"
  assumes "xs \<noteq> []"
  shows "last (sort_key f xs) \<in> set xs" and "f (last (sort_key f xs)) = Max (f ` set xs)"
proof -
  let ?ys = "sort_key f xs"
  have ne: "?ys \<noteq> []" using assms by (metis length_sort list.size(3) length_0_conv)
  then have "last ?ys \<in> set ?ys" by (rule last_in_set)
  then show mem: "last ?ys \<in> set xs" unfolding set_sort .
  have "sorted (map f ?ys)" by simp
  moreover have "last (map f ?ys) = f (last ?ys)" using ne by (simp add: last_map)
  ultimately have "\<forall>y \<in> set ?ys. f y \<le> f (last ?ys)"
    using sorted_le_last [of "map f ?ys"] by simp
  then have "\<forall>y \<in> set xs. f y \<le> f (last ?ys)" by simp
  with mem show "f (last ?ys) = Max (f ` set xs)"
    by (intro Max_eqI [symmetric]) auto
qed

lemma last_filter: "ys \<noteq> [] \<Longrightarrow> P (last ys) \<Longrightarrow> last (filter P ys) = last ys"
  by (induction ys rule: rev_induct) auto

text \<open>The sort is stable: of the elements with the greatest key, \<open>pop\<close> takes the last.\<close>

lemma last_sort_key_stable:
  fixes f :: "'a \<Rightarrow> int"
  assumes "xs \<noteq> []"
  shows "last (sort_key f xs) = last (filter (\<lambda>x. f x = Max (f ` set xs)) xs)"
proof -
  let ?ys = "sort_key f xs"
  let ?P = "\<lambda>x. f x = Max (f ` set xs)"
  have ne: "?ys \<noteq> []" using assms by (metis length_sort list.size(3) length_0_conv)
  have "?P (last ?ys)" by (rule last_sort_key(2) [OF assms])
  with ne have "last (filter ?P ?ys) = last ?ys" by (rule last_filter)
  moreover have "filter ?P ?ys = filter ?P xs" by (rule sort_key_stable)
  ultimately show ?thesis by simp
qed

lemma Feed_composed:
  assumes "entries \<noteq> []" and "\<forall>e \<in> set entries. \<not> isl (entryHTML X e)"
  shows "Feed X entries =
     Inr (JNode (lit ''feed'')
            [(str ''xmlns'', lit ''http://www.w3.org/2005/Atom''), (str ''xml:lang'', lit ''en-us'')]
            (feedHead (toISO (last (sort_key valueOf (map lastModified entries))))
             @ map (\<lambda>e. feedEntry e (projr (entryHTML X e))) entries))"
proof -
  have ok: "\<forall>e \<in> set entries. \<exists>n. Feed_entry X e = Inr n"
    using assms(2) by (auto simp: Feed_entry_html split: sum.splits)
  have each: "\<forall>e \<in> set entries. projr (Feed_entry X e) = feedEntry e (projr (entryHTML X e))"
    using assms(2) by (auto simp: Feed_entry_html split: sum.splits)
  have es: "mapE (Feed_entry X) entries = Inr (map (\<lambda>e. feedEntry e (projr (entryHTML X e))) entries)"
    using mapE_Inr [OF ok] each by (simp cong: map_cong)
  have flat: "flatten (JArr (map (\<lambda>e. feedEntry e (projr (entryHTML X e))) entries))
              = map (\<lambda>e. feedEntry e (projr (entryHTML X e))) entries"
    by (rule flatten_elements) (simp add: feedEntry_def)
  have pop: "pop (sort_key valueOf (map lastModified entries))
             = Some (last (sort_key valueOf (map lastModified entries)))"
    using assms(1) by (simp add: pop_def) (metis length_0_conv length_map length_sort)
  show ?thesis
    unfolding Feed_def pop es
    by (simp add: obj_def feedHead_def flat del: flatten.simps(1))
qed

lemma childrenTyped_feedHead:
  "filter (\<lambda>c. typeOf c = Inr (lit ''updated'')) (feedHead u) = [JNode (lit ''updated'') [] [JStr u]]"
  "filter (\<lambda>c. typeOf c = Inr (lit ''entry'')) (feedHead u) = []"
  by (simp_all add: feedHead_def lit_def str_def)

lemma childrenTyped_feedEntries:
  "filter (\<lambda>c. typeOf c = Inr (lit ''updated'')) (map (\<lambda>e. feedEntry e (g e)) es) = []"
  "filter (\<lambda>c. typeOf c = Inr (lit ''entry'')) (map (\<lambda>e. feedEntry e (g e)) es)
   = map (\<lambda>e. feedEntry e (g e)) es"
  by (induction es) (simp_all add: feedEntry_def lit_def str_def)

lemma filter_typed_map:
  "filter (\<lambda>c. typeOf c = Inr t) (map (\<lambda>x. JNode t' (ps x) (cs x)) xs)
   = (if t' = t then map (\<lambda>x. JNode t' (ps x) (cs x)) xs else [])"
  by (induction xs) auto

lemma feedEntry_children:
  "childrenTyped ''published'' (feedEntry e html)
     = [JNode (lit ''published'') [] [JStr (toISO (date (frontmatter e)))]]"
  "childrenTyped ''updated'' (feedEntry e html)
     = [JNode (lit ''updated'') [] [JStr (toISO (lastModified e))]]"
  "childrenTyped ''category'' (feedEntry e html)
     = map (\<lambda>tag. JNode (lit ''category'') [(str ''term'', JStr tag)] []) (tags (frontmatter e))"
  "childrenTyped ''content'' (feedEntry e html)
     = [JNode (lit ''content'')
          [(str ''type'', lit ''html''),
           (str ''innerHTML'', JStr (str ''<![CDATA['' @ html @ str '']]>''))] []]"
  unfolding childrenTyped_def feedEntry_def
  by (simp_all add: filter_typed_map) (simp_all add: lit_def str_def)

lemma typeOf_feedEntry: "typeOf (feedEntry e html) = Inr (lit ''entry'')"
  by (simp add: feedEntry_def)

lemma updated_of_feed:
  "childrenTyped ''updated'' (JNode t ps (feedHead u @ map (\<lambda>e. feedEntry e (g e)) es))
   = [JNode (lit ''updated'') [] [JStr u]]"
  by (simp add: childrenTyped_def childrenTyped_feedHead childrenTyped_feedEntries)

lemma Feed_updated:
  assumes "entries \<noteq> []" and "\<forall>e \<in> set entries. \<not> isl (entryHTML X e)"
  shows "\<exists>doc latest.
     Feed X entries = Inr doc
     \<and> childrenTyped ''updated'' doc = [JNode (lit ''updated'') [] [JStr (toISO latest)]]
     \<and> latest \<in> lastModified ` set entries
     \<and> valueOf latest = Max (valueOf ` lastModified ` set entries)
     \<and> latest = last (filter (\<lambda>d. valueOf d = Max (valueOf ` lastModified ` set entries))
                         (map lastModified entries))"
proof -
  define latest where "latest = last (sort_key valueOf (map lastModified entries))"
  have m: "map lastModified entries \<noteq> []" using assms(1) by simp
  have "latest \<in> set (map lastModified entries)"
    and "valueOf latest = Max (valueOf ` set (map lastModified entries))"
    unfolding latest_def by (rule last_sort_key [OF m])+
  then have l: "latest \<in> lastModified ` set entries"
    "valueOf latest = Max (valueOf ` lastModified ` set entries)"
    by simp_all
  have "latest = last (filter (\<lambda>d. valueOf d = Max (valueOf ` set (map lastModified entries)))
                         (map lastModified entries))"
    unfolding latest_def by (rule last_sort_key_stable [OF m])
  then have st: "latest = last (filter (\<lambda>d. valueOf d = Max (valueOf ` lastModified ` set entries))
                         (map lastModified entries))"
    by simp
  define doc where "doc = JNode (lit ''feed'')
            [(str ''xmlns'', lit ''http://www.w3.org/2005/Atom''), (str ''xml:lang'', lit ''en-us'')]
            (feedHead (toISO latest) @ map (\<lambda>e. feedEntry e (projr (entryHTML X e))) entries)"
  have "Feed X entries = Inr doc"
    unfolding doc_def latest_def by (rule Feed_composed [OF assms])
  moreover have "childrenTyped ''updated'' doc = [JNode (lit ''updated'') [] [JStr (toISO latest)]]"
    unfolding doc_def by (rule updated_of_feed)
  ultimately show ?thesis using l st by (intro exI [of _ doc] exI [of _ latest] conjI)
qed

lemma sample_html:
  "entryHTML sampleExt sampleEntry = Inr (str ''<p>Hello</p>'')"
  "entryHTML sampleExt laterEntry = Inr (str ''<p>World</p>'')"
  "entryHTML sampleExt twinEntry = Inr (str ''<p>World</p>'')"
  "entryHTML sampleExt zonedEntry = Inr (str ''<p>World</p>'')"
  by (simp_all add: entryHTML_def sampleExt_def sampleEntry_def laterEntry_def twinEntry_def
        zonedEntry_def str_def)

section \<open>The provider and the head of the expanded page\<close>

lemma headOf_single: "headOf (Inr [doc]) = region ''head'' doc"
  by (simp add: headOf_def)

lemma Page_noindex:
  "\<exists>doc. (\<forall>outer. expand X outer (Page X e C) = Inr [doc])
     \<and> filter isNoindex (region ''head'' doc) = []
     \<and> (published (frontmatter e) = JBool False \<longrightarrow> JNaN \<in> set (region ''body'' doc))"
proof -
  from Page_head [of X e C] obtain doc rest where
    d: "\<forall>outer. expand X outer (Page X e C) = Inr [doc]"
    and hd: "region ''head'' doc = pageHead X e"
    and bd: "region ''body'' doc =
        bodyHeader X (pagePath e)
        # (if published (frontmatter e) = JBool False then [JNaN] else []) @ rest"
    by blast
  have "filter isNoindex (region ''head'' doc) = []"
    unfolding hd by (rule pageHead_elements)
  moreover have "published (frontmatter e) = JBool False \<longrightarrow> JNaN \<in> set (region ''body'' doc)"
    unfolding bd by simp
  ultimately show ?thesis using d by blast
qed

lemma Page_provider:
  "typeOf (Page X e C) = Inr JContext"
  "attr (Page X e C) ''value'' = JStr (pagePath e)"
  "expand X outer (Page X e C) = expandAll X (JStr (pagePath e)) (childrenOf (Page X e C))"
proof -
  from Page_tree [of X e C] obtain cs where
    p: "Page X e C = JNode JContext [(str ''value'', JStr (pagePath e))] cs"
    by blast
  show "typeOf (Page X e C) = Inr JContext" "attr (Page X e C) ''value'' = JStr (pagePath e)"
    "expand X outer (Page X e C) = expandAll X (JStr (pagePath e)) (childrenOf (Page X e C))"
    unfolding p by (simp_all add: attr_def expand_provider)
qed

section \<open>Document: head and body placement\<close>

text \<open>
  C2. \<open>Document\<close>, called under a bound path with the children that \<open>h(Document, ...)\<close>
  collected from any arguments, returns an \<open>html\<close> element whose \<open>head\<close> holds, between
  fixed elements that do not depend on the children, exactly the children whose type is
  \<open>title\<close>, \<open>meta\<close>, \<open>link\<close> or \<open>script\<close>, and whose \<open>body\<close> holds, after a fixed header,
  exactly the other children; both groups are in the order of the arguments, however
  the two kinds were interleaved.
\<close>

theorem Document_head_body:
  "\<exists>before after header. \<forall>args.
     Document X (JStr p) (flattenAll args) =
       Inr (JNode (lit ''html'') []
              [JNode (lit ''head'') [] (before @ filter headType (flattenAll args) @ after),
               JNode (lit ''body'') []
                 (header @ filter (\<lambda>c. \<not> headType c) (flattenAll args))])"
proof (intro exI allI)
  fix args
  show "Document X (JStr p) (flattenAll args) =
       Inr (JNode (lit ''html'') []
              [JNode (lit ''head'') []
                 ([JNode (lit ''meta'') [(str ''charset'', lit ''UTF-8'')] []]
                  @ filter headType (flattenAll args) @ headTail X p),
               JNode (lit ''body'') []
                 ([bodyHeader X p] @ filter (\<lambda>c. \<not> headType c) (flattenAll args))])"
    using Document_children [of "flattenAll args" X p] flattenAll_fixed by simp
qed

text \<open>
  The spec's example: children \<open>section\<close>, \<open>meta\<close>, \<open>title\<close>, \<open>meta\<close>, the last one nested in
  an array next to \<open>false\<close>. The head has the two \<open>meta\<close> and the \<open>title\<close> in that order,
  the body has the \<open>section\<close>.
\<close>

lemma Document_example:
  "\<exists>after.
     Document sampleExt (JStr (str ''/x/''))
       (flattenAll
          [h (lit ''section'') [lit ''s''],
           h (lit ''meta'') [obj [(''name'', lit ''a'')]],
           h (lit ''title'') [lit ''t''],
           JArr [JBool False, h (lit ''meta'') [obj [(''name'', lit ''b'')]]]])
     = Inr (JNode (lit ''html'') []
              [JNode (lit ''head'') []
                 ([JNode (lit ''meta'') [(str ''charset'', lit ''UTF-8'')] [],
                   JNode (lit ''meta'') [(str ''name'', lit ''a'')] [],
                   JNode (lit ''title'') [] [lit ''t''],
                   JNode (lit ''meta'') [(str ''name'', lit ''b'')] []] @ after),
               JNode (lit ''body'') []
                 [bodyHeader sampleExt (str ''/x/''), JNode (lit ''section'') [] [lit ''s'']]])"
proof -
  have cs: "flattenAll
          [h (lit ''section'') [lit ''s''],
           h (lit ''meta'') [obj [(''name'', lit ''a'')]],
           h (lit ''title'') [lit ''t''],
           JArr [JBool False, h (lit ''meta'') [obj [(''name'', lit ''b'')]]]]
        = [JNode (lit ''section'') [] [lit ''s''],
           JNode (lit ''meta'') [(str ''name'', lit ''a'')] [],
           JNode (lit ''title'') [] [lit ''t''],
           JNode (lit ''meta'') [(str ''name'', lit ''b'')] []]"
    by (simp add: obj_def)
  have ty: "headType (JNode (lit ''meta'') ps ks)" "headType (JNode (lit ''title'') ps ks)"
    "\<not> headType (JNode (lit ''section'') ps ks)" for ps ks
    by (simp_all add: headType_def) (simp add: lit_def str_def)
  show ?thesis
    unfolding cs by (subst Document_children) (simp_all add: ty)
qed

section \<open>Open Graph metadata\<close>

text \<open>
  C9. The elements that \<open>OpenGraph\<close> returns are, in order, one \<open>meta\<close> element for each
  entry of the mapping whose value is truthy, and none for an entry whose value is falsy;
  the element carries the key in the attribute \<open>name\<close> when the key starts with
  \<open>twitter:\<close> and in the attribute \<open>property\<close> otherwise, and the value in \<open>content\<close>.
\<close>

theorem OpenGraph_meta_elements:
  "filter is_element (OpenGraph data) =
     map (\<lambda>(name, content).
            JNode (lit ''meta'')
              [(if startsWith name (str ''twitter:'') then str ''name'' else str ''property'',
                JStr name),
               (str ''content'', content)] [])
         (filter (\<lambda>(name, content). truthy content) data)"
proof (induction data)
  case Nil
  show ?case by (simp add: OpenGraph_def)
next
  case (Cons entry data)
  obtain name content where entry: "entry = (name, content)" by (cases entry)
  show ?case
  proof (cases "truthy content")
    case True
    with Cons show ?thesis by (simp add: entry OpenGraph_Cons metaElement_def)
  next
    case False
    with Cons truthy_not_element [of content] show ?thesis by (simp add: entry OpenGraph_Cons)
  qed
qed

section \<open>Entry page: path context and canonical link\<close>

text \<open>
  C4. \<open>Page\<close> returns a \<open>Path\<close> provider whose value is \<open>/<permalink>/\<close>; whatever is
  bound outside, all its children are expanded under that value; the expansion succeeds
  and gives one document, whose head has exactly one canonical link, with the href
  \<open>https://leebyron.com/til/<permalink>/\<close>.
\<close>

theorem Page_path_canonical:
  "typeOf (Page X e C) = Inr JContext
   \<and> attr (Page X e C) ''value'' = JStr (str ''/'' @ permalink (frontmatter e) @ str ''/'')
   \<and> (\<forall>outer. expand X outer (Page X e C)
         = expandAll X (JStr (str ''/'' @ permalink (frontmatter e) @ str ''/''))
             (childrenOf (Page X e C)))
   \<and> (\<exists>doc. (\<forall>outer. expand X outer (Page X e C) = Inr [doc])
         \<and> filter isCanonical (region ''head'' doc)
           = [JNode (lit ''link'')
                [(str ''rel'', lit ''canonical''),
                 (str ''href'',
                  JStr (str ''https://leebyron.com/til'' @ str ''/'' @ permalink (frontmatter e)
                        @ str ''/''))] []])"
proof -
  from Page_head [of X e C] obtain doc where
    d: "\<forall>outer. expand X outer (Page X e C) = Inr [doc]"
    and hd: "region ''head'' doc = pageHead X e"
    by blast
  have "filter isCanonical (region ''head'' doc)
        = [JNode (lit ''link'')
             [(str ''rel'', lit ''canonical''),
              (str ''href'', JStr (str ''https://leebyron.com/til'' @ pagePath e))] []]"
    unfolding hd by (rule pageHead_elements)
  with d Page_provider [where X = X and e = e and C = C] show ?thesis
    unfolding pagePath_def by simp
qed

section \<open>Entry page: the no-index hint\<close>

text \<open>
  For every entry, whatever its \<open>published\<close> flag, the head of the expanded page has no
  \<open>meta\<close> element with name \<open>robots\<close> and content \<open>noindex\<close>: this is \<open>Page_noindex\<close>
  above. With \<open>published\<close> false the first child of \<open>Document\<close> is the number that the
  minus sign makes of the element, and it lands in the body.
\<close>

text \<open>
  C1. At the entry of the spec's scenario with \<open>published: false\<close>, the page expands
  to one document whose head holds no no-index element and whose body holds \<open>NaN\<close>: the
  hint that the spec describes is not emitted.
\<close>

theorem Page_unpublished_without_noindex:
  "published (frontmatter hiddenEntry) = JBool False
   \<and> (\<exists>doc. expand sampleExt JUndefined (Page sampleExt hiddenEntry sampleContent) = Inr [doc]
         \<and> filter isNoindex (region ''head'' doc) = []
         \<and> JNaN \<in> set (region ''body'' doc))"
proof -
  have p: "published (frontmatter hiddenEntry) = JBool False"
    by (simp add: hiddenEntry_def)
  with Page_noindex [of sampleExt hiddenEntry sampleContent] show ?thesis by blast
qed

section \<open>Entry page: the description\<close>

text \<open>
  C5, as the code has it. Let \<open>d\<close> be the first 200 code units of the text of the first
  paragraph. When \<open>d\<close> is not empty the head of the expanded page has exactly one
  \<open>og:description\<close> element, with content \<open>d\<close>; when \<open>d\<close> is empty it has none, since
  \<open>OpenGraph\<close> emits nothing for a falsy value.
\<close>

theorem Page_og_description:
  "\<exists>doc. (\<forall>outer. expand X outer (Page X e C) = Inr [doc])
     \<and> filter isOgDescription (region ''head'' doc)
       = (if take 200 (textContent X (firstParagraph X (markdown e))) = [] then []
          else [JNode (lit ''meta'')
                  [(str ''property'', lit ''og:description''),
                   (str ''content'',
                    JStr (take 200 (textContent X (firstParagraph X (markdown e)))))] []])"
proof -
  from Page_head [of X e C] obtain doc where
    d: "\<forall>outer. expand X outer (Page X e C) = Inr [doc]"
    and hd: "region ''head'' doc = pageHead X e"
    by blast
  show ?thesis
    by (rule exI [of _ doc], rule conjI, rule d, unfold hd, rule pageHead_elements)
qed

text \<open>
  C5 as stated fails at an entry whose first paragraph has no text: the head of its page
  has no \<open>og:description\<close> element, where the statement has one with the empty summary.
\<close>

theorem Page_og_description_counterexample:
  "headOf (expand sampleExt JUndefined (Page sampleExt blankEntry sampleContent)) \<noteq> []
   \<and> filter isOgDescription
        (headOf (expand sampleExt JUndefined (Page sampleExt blankEntry sampleContent)))
     \<noteq> [JNode (lit ''meta'')
          [(str ''property'', lit ''og:description''),
           (str ''content'',
            JStr (take 200 (textContent sampleExt (firstParagraph sampleExt (markdown blankEntry)))))]
          []]"
proof -
  have t: "take 200 (textContent sampleExt (firstParagraph sampleExt (markdown blankEntry))) = []"
    by (simp add: sampleExt_def blankEntry_def)
  from Page_head [of sampleExt blankEntry sampleContent] obtain doc where
    d: "expand sampleExt JUndefined (Page sampleExt blankEntry sampleContent) = Inr [doc]"
    and hd: "region ''head'' doc = pageHead sampleExt blankEntry"
    by blast
  have "pageHead sampleExt blankEntry \<noteq> []"
    by (simp add: pageHead_def)
  moreover have "filter isOgDescription (pageHead sampleExt blankEntry) = []"
    by (simp add: pageHead_elements t)
  ultimately show ?thesis unfolding d headOf_single hd by simp
qed

section \<open>Entry page: keywords of the structured data\<close>

text \<open>
  C10, as the code has it. The head of the expanded page has exactly one JSON-LD block.
  When the tags list is empty, or is the single tag \<open>''\<close>, the block is the one of a
  mapping with no \<open>keywords\<close> key; otherwise it is the one of the mapping whose
  \<open>keywords\<close> is the tags joined by \<open>', '\<close>, in order.
\<close>

theorem Page_keywords:
  "\<exists>doc. (\<forall>outer. expand X outer (Page X e C) = Inr [doc])
     \<and> filter isJSONLD (region ''head'' doc)
       = [JSONLD (structuredData e
                   (if tags (frontmatter e) = [] \<or> tags (frontmatter e) = [[]] then []
                    else [(str ''keywords'', JsStr (join (str '', '') (tags (frontmatter e))))]))]"
proof -
  from Page_head [of X e C] obtain doc where
    d: "\<forall>outer. expand X outer (Page X e C) = Inr [doc]"
    and hd: "region ''head'' doc = pageHead X e"
    by blast
  show ?thesis
    by (rule exI [of _ doc], rule conjI, rule d, unfold hd, rule pageHead_elements)
qed

text \<open>
  C10 as stated fails at the non-empty tags list \<open>['']\<close>: the block of the page is the
  one without \<open>keywords\<close>, and it differs from the block whose \<open>keywords\<close> is the joined
  tags.
\<close>

theorem Page_keywords_counterexample:
  "tags (frontmatter blankTagEntry) \<noteq> []
   \<and> filter isJSONLD
        (headOf (expand sampleExt JUndefined (Page sampleExt blankTagEntry sampleContent)))
     = [JSONLD (structuredData blankTagEntry [])]
   \<and> JSONLD (structuredData blankTagEntry [])
     \<noteq> JSONLD (structuredData blankTagEntry
          [(str ''keywords'', JsStr (join (str '', '') (tags (frontmatter blankTagEntry))))])"
proof -
  have t: "tags (frontmatter blankTagEntry) = [[]]"
    by (simp add: blankTagEntry_def)
  from Page_head [of sampleExt blankTagEntry sampleContent] obtain doc where
    d: "expand sampleExt JUndefined (Page sampleExt blankTagEntry sampleContent) = Inr [doc]"
    and hd: "region ''head'' doc = pageHead sampleExt blankTagEntry"
    by blast
  have f: "filter isJSONLD (pageHead sampleExt blankTagEntry)
           = [JSONLD (structuredData blankTagEntry [])]"
    by (simp add: pageHead_elements t)
  show ?thesis
    unfolding d headOf_single hd f
    using JSONLD_keywords_differ [of blankTagEntry "[]", symmetric] by (simp add: t)
qed

section \<open>Feed: the empty list\<close>

text \<open>
  C7. Composing the feed of an empty list of entries throws: \<open>Feed\<close> returns the
  \<open>TypeError\<close> of \<open>undefined.toISO()\<close>, and no feed document.
\<close>

theorem Feed_empty: "Feed X [] = Inl TypeError"
  by (simp add: Feed_def pop_def)

section \<open>Feed: the updated timestamp\<close>

text \<open>
  C3, as the code has it. For a non-empty list of entries whose contents all render,
  \<open>Feed\<close> returns a document whose one feed-level \<open>updated\<close> element is \<open>toISO()\<close> of a
  last-modified timestamp of the list whose \<open>valueOf()\<close> is the maximum over the list:
  of the timestamps at the maximum, the one that comes last in the list. For any
  reordering of the list the timestamp chosen has the same \<open>valueOf()\<close>; the \<open>updated\<close>
  element is the same when timestamps of the list with equal \<open>valueOf()\<close> have equal
  \<open>toISO()\<close>.
\<close>

theorem Feed_updated_latest:
  assumes "entries \<noteq> []"
    and "\<forall>e \<in> set entries. \<not> isl (entryHTML X e)"
    and "mset entries' = mset entries"
  shows "\<exists>doc doc' latest latest'.
     Feed X entries = Inr doc
     \<and> childrenTyped ''updated'' doc = [JNode (lit ''updated'') [] [JStr (toISO latest)]]
     \<and> latest \<in> lastModified ` set entries
     \<and> valueOf latest = Max (valueOf ` lastModified ` set entries)
     \<and> latest = last (filter (\<lambda>d. valueOf d = Max (valueOf ` lastModified ` set entries))
                         (map lastModified entries))
     \<and> Feed X entries' = Inr doc'
     \<and> childrenTyped ''updated'' doc' = [JNode (lit ''updated'') [] [JStr (toISO latest')]]
     \<and> latest' \<in> lastModified ` set entries
     \<and> valueOf latest' = valueOf latest
     \<and> latest' = last (filter (\<lambda>d. valueOf d = Max (valueOf ` lastModified ` set entries))
                          (map lastModified entries'))
     \<and> ((\<forall>a \<in> set entries. \<forall>b \<in> set entries.
            valueOf (lastModified a) = valueOf (lastModified b)
            \<longrightarrow> toISO (lastModified a) = toISO (lastModified b))
          \<longrightarrow> childrenTyped ''updated'' doc' = childrenTyped ''updated'' doc)"
proof -
  have set_eq: "set entries' = set entries" using assms(3) by (rule mset_eq_setD)
  have ne': "entries' \<noteq> []" using assms(1,3) by auto
  have ok': "\<forall>e \<in> set entries'. \<not> isl (entryHTML X e)" using assms(2) set_eq by simp
  from Feed_updated [OF assms(1,2)] obtain doc latest where
    d: "Feed X entries = Inr doc"
       "childrenTyped ''updated'' doc = [JNode (lit ''updated'') [] [JStr (toISO latest)]]"
       "latest \<in> lastModified ` set entries"
       "valueOf latest = Max (valueOf ` lastModified ` set entries)"
       "latest = last (filter (\<lambda>d. valueOf d = Max (valueOf ` lastModified ` set entries))
                         (map lastModified entries))"
    by blast
  from Feed_updated [OF ne' ok'] obtain doc' latest' where
    d': "Feed X entries' = Inr doc'"
       "childrenTyped ''updated'' doc' = [JNode (lit ''updated'') [] [JStr (toISO latest')]]"
       "latest' \<in> lastModified ` set entries"
       "valueOf latest' = Max (valueOf ` lastModified ` set entries)"
       "latest' = last (filter (\<lambda>d. valueOf d = Max (valueOf ` lastModified ` set entries))
                          (map lastModified entries'))"
    unfolding set_eq by blast
  have same: "valueOf latest' = valueOf latest" using d(4) d'(4) by simp
  have tie: "childrenTyped ''updated'' doc' = childrenTyped ''updated'' doc"
    if ties: "\<forall>a \<in> set entries. \<forall>b \<in> set entries.
            valueOf (lastModified a) = valueOf (lastModified b)
            \<longrightarrow> toISO (lastModified a) = toISO (lastModified b)"
  proof -
    from d(3) d'(3) obtain a b where
      ab: "a \<in> set entries" "b \<in> set entries" "latest = lastModified a" "latest' = lastModified b"
      by blast
    with ties same have "toISO latest' = toISO latest" by metis
    then show ?thesis unfolding d(2) d'(2) by simp
  qed
  show ?thesis
    apply (rule exI [of _ doc])
    apply (rule exI [of _ doc'])
    apply (rule exI [of _ latest])
    apply (rule exI [of _ latest'])
    apply (intro conjI impI)
    apply (rule d(1))
    apply (rule d(2))
    apply (rule d(3))
    apply (rule d(4))
    apply (rule d(5))
    apply (rule d'(1))
    apply (rule d'(2))
    apply (rule d'(3))
    apply (rule same)
    apply (rule d'(5))
    apply (erule tie)
    done
qed

text \<open>
  The spec's example with a third entry tied with the later one, in two orders: the two
  tied timestamps have the same \<open>toISO()\<close>, and the \<open>updated\<close> element is the same.
\<close>

theorem Feed_updated_latest_witness:
  "[sampleEntry, laterEntry, twinEntry] \<noteq> []
   \<and> \<not> isl (entryHTML sampleExt sampleEntry)
   \<and> \<not> isl (entryHTML sampleExt laterEntry)
   \<and> \<not> isl (entryHTML sampleExt twinEntry)
   \<and> mset [twinEntry, sampleEntry, laterEntry] = mset [sampleEntry, laterEntry, twinEntry]
   \<and> laterEntry \<noteq> twinEntry
   \<and> valueOf (lastModified laterEntry) = valueOf (lastModified twinEntry)
   \<and> toISO (lastModified laterEntry) = toISO (lastModified twinEntry)
   \<and> (\<exists>doc doc'. Feed sampleExt [sampleEntry, laterEntry, twinEntry] = Inr doc
         \<and> Feed sampleExt [twinEntry, sampleEntry, laterEntry] = Inr doc'
         \<and> childrenTyped ''updated'' doc
             = [JNode (lit ''updated'') [] [lit ''2023-06-15T00:00:00.000Z'']]
         \<and> childrenTyped ''updated'' doc' = childrenTyped ''updated'' doc)"
proof -
  have h1: "[sampleEntry, laterEntry, twinEntry] \<noteq> []" by simp
  have h2: "\<forall>e \<in> set [sampleEntry, laterEntry, twinEntry]. \<not> isl (entryHTML sampleExt e)"
    by (simp add: sample_html)
  have h3: "mset [twinEntry, sampleEntry, laterEntry] = mset [sampleEntry, laterEntry, twinEntry]"
    by simp
  have vals: "valueOf (lastModified sampleEntry) = 1672531200000"
    "lastModified laterEntry = laterDate" "lastModified twinEntry = laterDate"
    "valueOf laterDate = 1686787200000"
    "toISO laterDate = str ''2023-06-15T00:00:00.000Z''"
    by (simp_all add: sampleEntry_def laterEntry_def twinEntry_def sampleDate_def laterDate_def)
  have diff: "laterEntry \<noteq> twinEntry"
  proof
    assume "laterEntry = twinEntry"
    then have "permalink (frontmatter laterEntry) = permalink (frontmatter twinEntry)" by simp
    then show False by (simp add: twinEntry_def laterEntry_def str_def)
  qed
  have ties: "\<forall>a \<in> set [sampleEntry, laterEntry, twinEntry].
            \<forall>b \<in> set [sampleEntry, laterEntry, twinEntry].
            valueOf (lastModified a) = valueOf (lastModified b)
            \<longrightarrow> toISO (lastModified a) = toISO (lastModified b)"
    by (simp add: vals)
  from Feed_updated_latest [OF h1 h2 h3] obtain doc doc' latest where
    f: "Feed sampleExt [sampleEntry, laterEntry, twinEntry] = Inr doc"
       "Feed sampleExt [twinEntry, sampleEntry, laterEntry] = Inr doc'"
    and u: "childrenTyped ''updated'' doc = [JNode (lit ''updated'') [] [JStr (toISO latest)]]"
    and l: "latest \<in> lastModified ` set [sampleEntry, laterEntry, twinEntry]"
       "valueOf latest = Max (valueOf ` lastModified ` set [sampleEntry, laterEntry, twinEntry])"
    and same: "(\<forall>a \<in> set [sampleEntry, laterEntry, twinEntry].
            \<forall>b \<in> set [sampleEntry, laterEntry, twinEntry].
            valueOf (lastModified a) = valueOf (lastModified b)
            \<longrightarrow> toISO (lastModified a) = toISO (lastModified b))
          \<longrightarrow> childrenTyped ''updated'' doc' = childrenTyped ''updated'' doc"
    by blast
  from l have "latest = laterDate" by (auto simp: vals)
  with u have "childrenTyped ''updated'' doc
               = [JNode (lit ''updated'') [] [lit ''2023-06-15T00:00:00.000Z'']]"
    by (simp add: vals lit_def)
  moreover from same ties have "childrenTyped ''updated'' doc' = childrenTyped ''updated'' doc"
    by (rule mp)
  moreover have "\<not> isl (entryHTML sampleExt sampleEntry)" "\<not> isl (entryHTML sampleExt laterEntry)"
    "\<not> isl (entryHTML sampleExt twinEntry)"
    by (simp_all add: sample_html)
  moreover have "valueOf (lastModified laterEntry) = valueOf (lastModified twinEntry)"
    "toISO (lastModified laterEntry) = toISO (lastModified twinEntry)"
    by (simp_all add: vals)
  ultimately show ?thesis using f h1 h3 diff by blast
qed

text \<open>
  C3 as stated fails at two entries whose last-modified timestamps are the same instant
  in two zones: \<open>valueOf()\<close> ties, the stable sort keeps the order of the list and \<open>pop\<close>
  takes the last, so the \<open>updated\<close> element is the \<open>toISO()\<close> of whichever entry comes
  last, and the two orders give two different elements.
\<close>

theorem Feed_updated_latest_counterexample:
  "valueOf (lastModified laterEntry) = valueOf (lastModified zonedEntry)
   \<and> feedUpdated (Feed sampleExt [laterEntry, zonedEntry])
       = [JNode (lit ''updated'') [] [lit ''2023-06-15T02:00:00.000+02:00'']]
   \<and> feedUpdated (Feed sampleExt [zonedEntry, laterEntry])
       = [JNode (lit ''updated'') [] [lit ''2023-06-15T00:00:00.000Z'']]
   \<and> feedUpdated (Feed sampleExt [laterEntry, zonedEntry])
       \<noteq> feedUpdated (Feed sampleExt [zonedEntry, laterEntry])"
proof -
  have vals: "lastModified laterEntry = laterDate" "lastModified zonedEntry = zonedDate"
    "valueOf laterDate = 1686787200000" "valueOf zonedDate = 1686787200000"
    "toISO laterDate = str ''2023-06-15T00:00:00.000Z''"
    "toISO zonedDate = str ''2023-06-15T02:00:00.000+02:00''"
    by (simp_all add: laterEntry_def zonedEntry_def laterDate_def zonedDate_def)
  have ok: "\<forall>e \<in> set [laterEntry, zonedEntry]. \<not> isl (entryHTML sampleExt e)"
    "\<forall>e \<in> set [zonedEntry, laterEntry]. \<not> isl (entryHTML sampleExt e)"
    by (simp_all add: sample_html)
  have last1: "last (sort_key valueOf (map lastModified [laterEntry, zonedEntry])) = zonedDate"
    and last2: "last (sort_key valueOf (map lastModified [zonedEntry, laterEntry])) = laterDate"
    by (simp_all add: vals)
  have ne: "[laterEntry, zonedEntry] \<noteq> []" "[zonedEntry, laterEntry] \<noteq> []" by simp_all
  have u1: "feedUpdated (Feed sampleExt [laterEntry, zonedEntry])
            = [JNode (lit ''updated'') [] [lit ''2023-06-15T02:00:00.000+02:00'']]"
    unfolding Feed_composed [OF ne(1) ok(1)] last1 feedUpdated_def
    by (simp only: sum.case updated_of_feed vals lit_def)
  have u2: "feedUpdated (Feed sampleExt [zonedEntry, laterEntry])
            = [JNode (lit ''updated'') [] [lit ''2023-06-15T00:00:00.000Z'']]"
    unfolding Feed_composed [OF ne(2) ok(2)] last2 feedUpdated_def
    by (simp only: sum.case updated_of_feed vals lit_def)
  have "str ''2023-06-15T02:00:00.000+02:00'' \<noteq> str ''2023-06-15T00:00:00.000Z''"
    by (simp add: str_def)
  then show ?thesis unfolding u1 u2 by (simp add: vals lit_def)
qed

section \<open>Feed: the entry elements\<close>

text \<open>
  C6. For a non-empty list of entries whose contents all render, \<open>Feed\<close> returns a \<open>feed\<close>
  element, not a \<open>Document\<close>: its children are the ten feed-level elements and then one
  \<open>entry\<close> element per entry, in order. The \<open>entry\<close> element of an entry has one
  \<open>published\<close> child with \<open>toISO()\<close> of the front-matter date, one \<open>updated\<close> child with
  \<open>toISO()\<close> of the last-modified timestamp, one \<open>category\<close> child with the attribute
  \<open>term\<close> per tag, in order, and one \<open>content\<close> child whose \<open>innerHTML\<close> is the rendered
  HTML of the entry between \<open><![CDATA[\<close> and \<open>]]>\<close>.
\<close>

theorem Feed_entry_elements:
  assumes "entries \<noteq> []"
    and "\<forall>e \<in> set entries. \<not> isl (entryHTML X e)"
  shows "\<exists>doc.
     Feed X entries = Inr doc
     \<and> typeOf doc = Inr (lit ''feed'')
     \<and> map typeOf (childrenOf doc)
         = map (\<lambda>name. Inr (lit name))
             [''id'', ''link'', ''link'', ''updated'', ''title'', ''subtitle'', ''icon'', ''author'',
              ''rights'', ''generator'']
           @ replicate (length entries) (Inr (lit ''entry''))
     \<and> list_all2
         (\<lambda>e n.
            childrenTyped ''published'' n
              = [JNode (lit ''published'') [] [JStr (toISO (date (frontmatter e)))]]
            \<and> childrenTyped ''updated'' n
              = [JNode (lit ''updated'') [] [JStr (toISO (lastModified e))]]
            \<and> childrenTyped ''category'' n
              = map (\<lambda>tag. JNode (lit ''category'') [(str ''term'', JStr tag)] [])
                  (tags (frontmatter e))
            \<and> (\<exists>html. entryHTML X e = Inr html
                 \<and> childrenTyped ''content'' n
                   = [JNode (lit ''content'')
                        [(str ''type'', lit ''html''),
                         (str ''innerHTML'', JStr (str ''<![CDATA['' @ html @ str '']]>''))] []]))
         entries (childrenTyped ''entry'' doc)"
proof -
  let ?es = "map (\<lambda>e. feedEntry e (projr (entryHTML X e))) entries"
  let ?doc = "JNode (lit ''feed'')
            [(str ''xmlns'', lit ''http://www.w3.org/2005/Atom''), (str ''xml:lang'', lit ''en-us'')]
            (feedHead (toISO (last (sort_key valueOf (map lastModified entries)))) @ ?es)"
  have doc: "Feed X entries = Inr ?doc" by (rule Feed_composed [OF assms])
  have ty: "typeOf ?doc = Inr (lit ''feed'')" by simp
  have types: "map typeOf (childrenOf ?doc)
         = map (\<lambda>name. Inr (lit name))
             [''id'', ''link'', ''link'', ''updated'', ''title'', ''subtitle'', ''icon'', ''author'',
              ''rights'', ''generator'']
           @ replicate (length entries) (Inr (lit ''entry''))"
    by (simp add: feedHead_def typeOf_feedEntry map_replicate_const comp_def)
  have ents: "childrenTyped ''entry'' ?doc = ?es"
    by (simp add: childrenTyped_def childrenTyped_feedHead childrenTyped_feedEntries)
  have html: "\<forall>e \<in> set entries. \<exists>html. entryHTML X e = Inr html \<and> projr (entryHTML X e) = html"
    using assms(2) by (auto simp: isl_def)
  have "list_all2
         (\<lambda>e n.
            childrenTyped ''published'' n
              = [JNode (lit ''published'') [] [JStr (toISO (date (frontmatter e)))]]
            \<and> childrenTyped ''updated'' n
              = [JNode (lit ''updated'') [] [JStr (toISO (lastModified e))]]
            \<and> childrenTyped ''category'' n
              = map (\<lambda>tag. JNode (lit ''category'') [(str ''term'', JStr tag)] [])
                  (tags (frontmatter e))
            \<and> (\<exists>html. entryHTML X e = Inr html
                 \<and> childrenTyped ''content'' n
                   = [JNode (lit ''content'')
                        [(str ''type'', lit ''html''),
                         (str ''innerHTML'', JStr (str ''<![CDATA['' @ html @ str '']]>''))] []]))
         entries ?es"
    unfolding list_all2_map2
  proof (intro list_all2_all_nthI, goal_cases)
    case (2 n)
    then have "entries ! n \<in> set entries" by simp
    with html obtain t where
      "entryHTML X (entries ! n) = Inr t" "projr (entryHTML X (entries ! n)) = t" by blast
    then show ?case by (simp add: feedEntry_children)
  qed simp
  then show ?thesis using doc ty types ents by (intro exI [of _ ?doc]) (simp only: simp_thms)
qed

theorem Feed_entry_elements_witness:
  "[sampleEntry, laterEntry] \<noteq> []
   \<and> \<not> isl (entryHTML sampleExt sampleEntry)
   \<and> \<not> isl (entryHTML sampleExt laterEntry)
   \<and> (\<exists>doc. Feed sampleExt [sampleEntry, laterEntry] = Inr doc
         \<and> length (childrenTyped ''entry'' doc) = 2
         \<and> childrenTyped ''category'' (childrenTyped ''entry'' doc ! 1)
             = [JNode (lit ''category'') [(str ''term'', JStr (str ''vim''))] [],
                JNode (lit ''category'') [(str ''term'', JStr (str ''tips''))] []]
         \<and> childrenTyped ''content'' (childrenTyped ''entry'' doc ! 0)
             = [JNode (lit ''content'')
                  [(str ''type'', lit ''html''),
                   (str ''innerHTML'', JStr (str ''<![CDATA[<p>Hello</p>]]>''))] []])"
proof -
  have h1: "[sampleEntry, laterEntry] \<noteq> []" by simp
  have h2: "\<forall>e \<in> set [sampleEntry, laterEntry]. \<not> isl (entryHTML sampleExt e)"
    by (simp add: sample_html)
  from Feed_entry_elements [OF h1 h2] obtain doc where
    f: "Feed sampleExt [sampleEntry, laterEntry] = Inr doc"
    and all: "list_all2
         (\<lambda>e n.
            childrenTyped ''published'' n
              = [JNode (lit ''published'') [] [JStr (toISO (date (frontmatter e)))]]
            \<and> childrenTyped ''updated'' n
              = [JNode (lit ''updated'') [] [JStr (toISO (lastModified e))]]
            \<and> childrenTyped ''category'' n
              = map (\<lambda>tag. JNode (lit ''category'') [(str ''term'', JStr tag)] [])
                  (tags (frontmatter e))
            \<and> (\<exists>html. entryHTML sampleExt e = Inr html
                 \<and> childrenTyped ''content'' n
                   = [JNode (lit ''content'')
                        [(str ''type'', lit ''html''),
                         (str ''innerHTML'', JStr (str ''<![CDATA['' @ html @ str '']]>''))] []]))
         [sampleEntry, laterEntry] (childrenTyped ''entry'' doc)"
    by blast
  from all obtain n0 n1 where ns: "childrenTyped ''entry'' doc = [n0, n1]"
    by (auto simp: list_all2_Cons1)
  from all have "childrenTyped ''category'' n1
             = [JNode (lit ''category'') [(str ''term'', JStr (str ''vim''))] [],
                JNode (lit ''category'') [(str ''term'', JStr (str ''tips''))] []]"
    unfolding ns by (simp add: laterEntry_def)
  moreover from all have "childrenTyped ''content'' n0
             = [JNode (lit ''content'')
                  [(str ''type'', lit ''html''),
                   (str ''innerHTML'', JStr (str ''<![CDATA[<p>Hello</p>]]>''))] []]"
    unfolding ns by (simp add: sample_html) (simp add: str_def)
  moreover have "\<not> isl (entryHTML sampleExt sampleEntry)" "\<not> isl (entryHTML sampleExt laterEntry)"
    by (simp_all add: sample_html)
  ultimately show ?thesis using f h1 ns by simp
qed

section \<open>Entries with the same permalink\<close>

text \<open>
  Neither \<open>Page\<close> nor \<open>Feed\<close> compares permalinks. The feed of two different entries with
  the same permalink is composed, with two \<open>entry\<close> elements of the same \<open>id\<close>. Whether
  a build rejects such a list is decided by the code that enumerates the entries and
  writes the output, outside this module.
\<close>

lemma Feed_same_permalink:
  "permalink (frontmatter sampleEntry) = permalink (frontmatter twinEntry)
   \<and> sampleEntry \<noteq> twinEntry
   \<and> (\<exists>doc a b. Feed sampleExt [sampleEntry, twinEntry] = Inr doc
         \<and> childrenTyped ''entry'' doc = [a, b]
         \<and> childrenTyped ''id'' a = [JNode (lit ''id'') [] [lit ''https://leebyron.com/til/x/'']]
         \<and> childrenTyped ''id'' b = childrenTyped ''id'' a)"
proof -
  have html: "entryHTML sampleExt twinEntry = Inr (str ''<p>World</p>'')"
    by (simp add: entryHTML_def sampleExt_def twinEntry_def laterEntry_def str_def)
  have ok: "\<forall>e \<in> set [sampleEntry, twinEntry]. \<not> isl (entryHTML sampleExt e)"
    by (simp add: sample_html html)
  have same: "permalink (frontmatter sampleEntry) = str ''x''"
    "permalink (frontmatter twinEntry) = str ''x''"
    by (simp_all add: sampleEntry_def twinEntry_def)
  have diff: "sampleEntry \<noteq> twinEntry"
  proof
    assume "sampleEntry = twinEntry"
    then have "markdown sampleEntry = markdown twinEntry" by simp
    then show False by (simp add: sampleEntry_def twinEntry_def laterEntry_def str_def)
  qed
  have id: "childrenTyped ''id'' (feedEntry e t)
            = [JNode (lit ''id'') []
                 [JStr (str ''https://leebyron.com/til/'' @ permalink (frontmatter e) @ str ''/'')]]"
    for e :: "jsstring entry" and t
    unfolding childrenTyped_def feedEntry_def
    by (simp add: filter_typed_map) (simp add: lit_def str_def)
  have lit: "[JNode (lit ''id'') [] [JStr (str ''https://leebyron.com/til/'' @ str ''x'' @ str ''/'')]]
             = [JNode (lit ''id'') [] [lit ''https://leebyron.com/til/x/'']]"
    by (simp add: lit_def str_def)
  have entries: "childrenTyped ''entry''
        (JNode t ps (feedHead u @ map (\<lambda>e. feedEntry e (projr (entryHTML sampleExt e)))
                                  [sampleEntry, twinEntry]))
      = [feedEntry sampleEntry (projr (entryHTML sampleExt sampleEntry)),
         feedEntry twinEntry (projr (entryHTML sampleExt twinEntry))]" for t ps u
    unfolding childrenTyped_def
    using childrenTyped_feedEntries(2) [of "\<lambda>e. projr (entryHTML sampleExt e)" "[sampleEntry, twinEntry]"]
    by (simp add: childrenTyped_feedHead)
  define u where "u = toISO (last (sort_key valueOf (map lastModified [sampleEntry, twinEntry])))"
  define doc where "doc = JNode (lit ''feed'')
      [(str ''xmlns'', lit ''http://www.w3.org/2005/Atom''), (str ''xml:lang'', lit ''en-us'')]
      (feedHead u @ map (\<lambda>e. feedEntry e (projr (entryHTML sampleExt e))) [sampleEntry, twinEntry])"
  have ne: "[sampleEntry, twinEntry] \<noteq> []" by simp
  have f: "Feed sampleExt [sampleEntry, twinEntry] = Inr doc"
    unfolding doc_def u_def by (rule Feed_composed [OF ne ok])
  have es: "childrenTyped ''entry'' doc
      = [feedEntry sampleEntry (projr (entryHTML sampleExt sampleEntry)),
         feedEntry twinEntry (projr (entryHTML sampleExt twinEntry))]"
    unfolding doc_def by (rule entries)
  have ids: "childrenTyped ''id'' (feedEntry sampleEntry (projr (entryHTML sampleExt sampleEntry)))
             = [JNode (lit ''id'') [] [lit ''https://leebyron.com/til/x/'']]"
    "childrenTyped ''id'' (feedEntry twinEntry (projr (entryHTML sampleExt twinEntry)))
     = [JNode (lit ''id'') [] [lit ''https://leebyron.com/til/x/'']]"
    unfolding id same lit by simp_all
  from f es ids same diff show ?thesis by simp
qed

end
